theory Spec2Isabelle
  imports Complex_Main
begin

section \<open>Shared types\<close>

text \<open>
  Python's unbounded integers are \<open>int\<close>; byte strings (addresses, block hashes,
  locksroots) are \<open>string\<close>. A block specification is either a name such as
  \<open>''latest''\<close>, a block number or a block hash.
\<close>

type_synonym BlockNumber = int
type_synonym Address = string
type_synonym Locksroot = string

datatype BlockSpecification = BlockName string | BlockNum int | BlockHash string

text \<open>
  The message of an assertion in state.py is an f-string; its pieces are kept apart, so
  that the encoders of \<open>eth_utils\<close> (\<open>to_hex\<close>, \<open>to_checksum_address\<close>) need no
  model.
\<close>

datatype msg_part = Text string | to_hex string | to_checksum_address Address

text \<open>
  Exceptions are values. \<open>ValueError\<close> is what the RPC layer raises for a pruned
  block, \<open>AssertionError\<close> carries the message of a failed \<open>assert\<close> (no pieces
  when the \<open>assert\<close> has no message), and \<open>OtherError\<close> stands for every other
  failure of a remote call.
\<close>

datatype exn = ValueError | AssertionError "msg_part list" | OtherError string

section \<open>raiden/utils/filters.py\<close>

definition FILTER_MAX_BLOCK_RANGE :: int where
  "FILTER_MAX_BLOCK_RANGE = 100000"

text \<open>
  Modelled from the spec: \<open>raiden.constants.GENESIS_BLOCK_NUMBER\<close> is imported by
  filters.py but not defined there; the genesis block is the block of height 0.
\<close>

definition GENESIS_BLOCK_NUMBER :: int where
  "GENESIS_BLOCK_NUMBER = 0"

text \<open>
  The filter parameters are a dictionary with the keys \<open>address\<close>, \<open>topics\<close>,
  \<open>fromBlock\<close> and \<open>toBlock\<close>; a key that is absent is \<open>None\<close>.
\<close>

record FilterParams =
  address :: "Address option"
  topics :: "string option list"
  fromBlock :: "BlockSpecification option"
  toBlock :: "BlockSpecification option"

record raw_log =
  log_blockNumber :: int
  log_data :: string

text \<open>
  The node behind \<open>web3\<close>: what it answers to \<open>eth.getLogs\<close>, \<open>eth.blockNumber\<close>
  and to the lookup of a block's number, each of which may raise. The answers are those
  of the node during one call of the filter. The field \<open>getLogs_calls\<close> records, in
  order, the parameters of every raw log query issued.
\<close>

record Web3 =
  eth_getLogs :: "FilterParams \<Rightarrow> exn + raw_log list"
  eth_blockNumber :: "exn + int"
  eth_getBlock_number :: "BlockSpecification \<Rightarrow> exn + int"
  getLogs_calls :: "FilterParams list"

definition getLogs :: "Web3 \<Rightarrow> FilterParams \<Rightarrow> (exn + raw_log list) \<times> Web3" where
  "getLogs w fp = (eth_getLogs w fp, w\<lparr>getLogs_calls := getLogs_calls w @ [fp]\<rparr>)"

text \<open>
  Modelled from the spec: \<open>raiden.utils.block_specification_to_number\<close> is imported
  by filters.py but not defined there. The spec's BlockHeightResolver "resolves a symbolic
  block specifier (latest, pending, or a concrete height) to a numeric height via the
  chain node": a concrete height is returned as it is, anything else is asked of the node.
\<close>

definition block_specification_to_number :: "BlockSpecification \<Rightarrow> Web3 \<Rightarrow> exn + int" where
  "block_specification_to_number block w =
     (case block of BlockNum n \<Rightarrow> Inr n | _ \<Rightarrow> eth_getBlock_number w block)"

text \<open>
  The object state of \<open>StatelessFilter\<close>. The field \<open>last_block\<close> is the source's
  \<open>_last_block\<close>. The semaphore \<open>_lock\<close> only serialises callers and is not part of
  the sequential model.
\<close>

record StatelessFilter =
  web3 :: Web3
  filter_params :: FilterParams
  last_block :: int

definition StatelessFilter_init :: "Web3 \<Rightarrow> FilterParams \<Rightarrow> StatelessFilter" where
  "StatelessFilter_init w fp = \<lparr>web3 = w, filter_params = fp, last_block = - 1\<rparr>"

text \<open>
  \<open>_do_get_new_entries\<close>: one raw query. \<open>_last_block\<close> is assigned after the query
  has returned; an exception leaves the object as it was, apart from the recorded call.
\<close>

definition do_get_new_entries ::
  "StatelessFilter \<Rightarrow> BlockSpecification \<Rightarrow> BlockSpecification
     \<Rightarrow> (exn + raw_log list) \<times> StatelessFilter" where
  "do_get_new_entries self from_block to_block =
     (let fp = (filter_params self)\<lparr>fromBlock := Some from_block, toBlock := Some to_block\<rparr>;
          (res, w) = getLogs (web3 self) fp;
          self1 = self\<lparr>web3 := w\<rparr>
      in case res of
           Inl e \<Rightarrow> (Inl e, self1)
         | Inr result \<Rightarrow>
             (case block_specification_to_number to_block w of
                Inl e \<Rightarrow> (Inl e, self1)
              | Inr n \<Rightarrow> (Inr result, self1\<lparr>last_block := n\<rparr>)))"

text \<open>The \<open>while\<close> loop of \<open>get_new_entries\<close>, with the list \<open>result\<close> as accumulator.\<close>

function get_new_entries_loop ::
  "StatelessFilter \<Rightarrow> int \<Rightarrow> int \<Rightarrow> raw_log list \<Rightarrow> (exn + raw_log list) \<times> StatelessFilter" where
  "get_new_entries_loop self from_block_number target_block_number result =
     (if from_block_number \<le> target_block_number then
        (let to_block = min (from_block_number + FILTER_MAX_BLOCK_RANGE) target_block_number
         in case do_get_new_entries self (BlockNum from_block_number) (BlockNum to_block) of
              (Inl e, self1) \<Rightarrow> (Inl e, self1)
            | (Inr entries, self1) \<Rightarrow>
                get_new_entries_loop self1 (from_block_number + FILTER_MAX_BLOCK_RANGE)
                  target_block_number (result @ entries))
      else (Inr result, self))"
  by pat_completeness auto
termination
  by (relation "measure (\<lambda>(self, f, t, r). nat (t - f + 1))")
     (auto simp: FILTER_MAX_BLOCK_RANGE_def)

definition get_new_entries ::
  "StatelessFilter \<Rightarrow> int \<Rightarrow> (exn + raw_log list) \<times> StatelessFilter" where
  "get_new_entries self target_block_number =
     (case block_specification_to_number
             (case fromBlock (filter_params self) of
                None \<Rightarrow> BlockNum GENESIS_BLOCK_NUMBER | Some b \<Rightarrow> b)
             (web3 self) of
        Inl e \<Rightarrow> (Inl e, self)
      | Inr filter_from_number \<Rightarrow>
          (let from_block_number = max filter_from_number (last_block self + 1)
           in get_new_entries_loop self from_block_number target_block_number []))"

text \<open>
  Python truthiness of \<open>filter_params.get("toBlock")\<close> (\<open>if to_block:\<close>): an absent
  key, the number 0 and the empty string are false.
\<close>

fun truthy :: "BlockSpecification option \<Rightarrow> bool" where
  "truthy None = False"
| "truthy (Some (BlockNum n)) = (n \<noteq> 0)"
| "truthy (Some (BlockName s)) = (s \<noteq> [])"
| "truthy (Some (BlockHash h)) = (h \<noteq> [])"

text \<open>
  \<open>get_all_entries\<close>. The argument is \<open>None\<close> when the caller passes no block number;
  \<open>block_number or self.web3.eth.blockNumber\<close> asks the node when the argument is
  \<open>None\<close> or 0.
\<close>

definition get_all_entries ::
  "StatelessFilter \<Rightarrow> int option \<Rightarrow> (exn + raw_log list) \<times> StatelessFilter" where
  "get_all_entries self block_number_arg =
     (case (case block_number_arg of
              Some n \<Rightarrow> if n \<noteq> 0 then Inr n else eth_blockNumber (web3 self)
            | None \<Rightarrow> eth_blockNumber (web3 self)) of
        Inl e \<Rightarrow> (Inl e, self)
      | Inr block_number \<Rightarrow>
          (let fp = (if toBlock (filter_params self) = Some (BlockName ''latest'')
                        \<or> toBlock (filter_params self) = Some (BlockName ''pending'')
                     then (filter_params self)\<lparr>toBlock := Some (BlockNum block_number)\<rparr>
                     else filter_params self);
               (res, w) = getLogs (web3 self) fp;
               self1 = self\<lparr>web3 := w\<rparr>
           in case res of
                Inl e \<Rightarrow> (Inl e, self1)
              | Inr result \<Rightarrow>
                  (case toBlock fp of
                     Some to_block \<Rightarrow>
                       if truthy (Some to_block) then
                         (case block_specification_to_number to_block w of
                            Inl e \<Rightarrow> (Inl e, self1)
                          | Inr n \<Rightarrow> (Inr result, self1\<lparr>last_block := n\<rparr>))
                       else (Inr result, self1\<lparr>last_block := block_number\<rparr>)
                   | None \<Rightarrow> (Inr result, self1\<lparr>last_block := block_number\<rparr>))))"

section \<open>raiden/blockchain/state.py\<close>

subsection \<open>Data\<close>

type_synonym ChainID = int
type_synonym ChannelID = int
type_synonym Balance = int

record CanonicalIdentifier =
  chain_identifier :: ChainID
  token_network_address :: Address
  channel_identifier :: ChannelID

text \<open>
  A decoded event. The dictionary \<open>event_data["args"]\<close> is decoded once per event kind:
  \<open>ChannelArgs\<close> for ChannelSettled, ChannelClosed and NonClosingBalanceProofUpdated,
  \<open>ChannelNewArgs\<close> for ChannelOpened and \<open>UnlockArgs\<close> for ChannelUnlocked, so a key the
  resolver reads is a field of the record.
\<close>

record ChannelArgs =
  arg_channel_identifier :: ChannelID

record ChannelNewArgs = ChannelArgs +
  participant1 :: Address
  participant2 :: Address

record UnlockArgs =
  receiver :: Address
  sender :: Address
  locksroot :: Locksroot

record 'args EventData =
  args :: 'args
  block_hash :: string

record 'args DecodedEvent =
  event_chain_id :: ChainID
  originating_contract :: Address
  event_data :: "'args EventData"

record NettingChannelEndState =
  end_address :: Address

record NettingChannelState =
  canonical_identifier :: CanonicalIdentifier
  our_state :: NettingChannelEndState
  partner_state :: NettingChannelEndState

text \<open>
  Modelled from the spec: \<open>raiden.transfer.state.TokenNetworkState\<close> is not defined in
  state.py. Its dictionary \<open>partneraddresses_to_channelidentifiers\<close> holds, per partner,
  "every channel identifier locally recorded as ever having existed between the local
  node and that partner"; it is a dictionary with the empty list as default, so reading
  \<open>d[partner]\<close> for a partner without an entry gives no candidates and does not raise.
\<close>

record TokenNetworkState =
  partneraddresses_to_channelidentifiers :: "Address \<rightharpoonup> ChannelID list"

record TokenNetworkRegistry =
  registry_address :: Address

text \<open>
  Modelled from the spec: \<open>raiden.transfer.state.ChainState\<close> and \<open>raiden.transfer.views\<close>
  are imported by state.py but not defined there. The spec's local state-view capability
  offers \<open>channel_state_by_canonical_id\<close>, \<open>token_network_by_address\<close> and
  \<open>token_network_registry_by_token_network_address\<close>; each is a lookup in the chain state
  that answers \<open>None\<close> for what the node does not track.
\<close>

record ChainState =
  chain_id :: ChainID
  our_address :: Address
  channelstates :: "CanonicalIdentifier \<rightharpoonup> NettingChannelState"
  token_networks :: "Address \<rightharpoonup> TokenNetworkState"
  token_network_registries :: "Address \<rightharpoonup> TokenNetworkRegistry"

definition get_channelstate_by_canonical_identifier ::
  "ChainState \<Rightarrow> CanonicalIdentifier \<Rightarrow> NettingChannelState option" where
  "get_channelstate_by_canonical_identifier chain_state cid = channelstates chain_state cid"

definition get_token_network_by_address :: "ChainState \<Rightarrow> Address \<Rightarrow> TokenNetworkState option" where
  "get_token_network_by_address chain_state a = token_networks chain_state a"

definition get_token_network_registry_by_token_network_address ::
  "ChainState \<Rightarrow> Address \<Rightarrow> TokenNetworkRegistry option" where
  "get_token_network_registry_by_token_network_address chain_state a =
     token_network_registries chain_state a"

text \<open>The two result values, with the fields in the order of the dataclasses.\<close>

datatype ChannelSettleState = ChannelSettleState CanonicalIdentifier Locksroot Locksroot

datatype NewChannelDetails =
  NewChannelDetails ChainID Address Address Address Balance Address Balance

subsection \<open>The chain service\<close>

record ParticipantDetails =
  participant_address :: Address
  deposit :: int

record ParticipantsDetails =
  our_details :: ParticipantDetails
  partner_details :: ParticipantDetails

record ChannelDetails =
  token_address :: Address
  participants_data :: ParticipantsDetails

datatype OnchainQuery =
    LocksrootsQuery CanonicalIdentifier Address Address BlockSpecification
  | DetailQuery CanonicalIdentifier BlockSpecification

text \<open>
  What the chain answers, and the on-chain queries issued so far (\<open>queries\<close>). A query
  raises \<open>ValueError\<close> when the block was pruned.
\<close>

record BlockChainService =
  onchain_locksroots ::
    "CanonicalIdentifier \<Rightarrow> Address \<Rightarrow> Address \<Rightarrow> BlockSpecification
       \<Rightarrow> exn + (Locksroot \<times> Locksroot)"
  channel_detail :: "CanonicalIdentifier \<Rightarrow> BlockSpecification \<Rightarrow> exn + ChannelDetails"
  queries :: "OnchainQuery list"

text \<open>
  Modelled from the spec: \<open>raiden.network.proxies.utils.get_onchain_locksroots\<close> and the
  payment channel proxy of \<open>BlockChainService\<close> are imported by state.py but not defined
  there. The spec's chain-node capability has
  \<open>get_locksroots(canonical_identifier, participant1, participant2, block_identifier)\<close> and
  \<open>get_channel_detail(canonical_identifier, block_identifier)\<close>, one on-chain query each;
  the proxy is bound to its canonical identifier.
\<close>

definition get_onchain_locksroots ::
  "BlockChainService \<Rightarrow> CanonicalIdentifier \<Rightarrow> Address \<Rightarrow> Address \<Rightarrow> BlockSpecification
     \<Rightarrow> (exn + (Locksroot \<times> Locksroot)) \<times> BlockChainService" where
  "get_onchain_locksroots chain cid p1 p2 block_identifier =
     (onchain_locksroots chain cid p1 p2 block_identifier,
      chain\<lparr>queries := queries chain @ [LocksrootsQuery cid p1 p2 block_identifier]\<rparr>)"

definition payment_channel :: "BlockChainService \<Rightarrow> CanonicalIdentifier \<Rightarrow> CanonicalIdentifier" where
  "payment_channel chain cid = cid"

definition detail ::
  "BlockChainService \<Rightarrow> CanonicalIdentifier \<Rightarrow> BlockSpecification
     \<Rightarrow> (exn + ChannelDetails) \<times> BlockChainService" where
  "detail chain channel_proxy block_identifier =
     (channel_detail chain channel_proxy block_identifier,
      chain\<lparr>queries := queries chain @ [DetailQuery channel_proxy block_identifier]\<rparr>)"

subsection \<open>The persisted history\<close>

text \<open>
  Modelled from the spec: \<open>raiden.storage.restore\<close> and \<open>SerializedSQLiteStorage\<close> are
  imported by state.py but not defined there. The spec's persisted-history capability has
  \<open>state_change_with_balance_proof_by_locksroot(canonical_id, locksroot, sender)\<close>, a
  search of the state-change history "for a balance proof by that partner under that
  channel with a matching locksroot", and
  \<open>event_with_balance_proof_by_locksroot(canonical_id, locksroot, recipient)\<close>, the same
  search of the event history for a sent balance proof. A record keeps the balance proof's
  canonical identifier (\<open>record.data.balance_proof.canonical_identifier\<close>), its locksroot
  and the other party (the sender of a received balance proof, the recipient of a sent one).
\<close>

record BalanceProofRecord =
  balance_proof_canonical_identifier :: CanonicalIdentifier
  balance_proof_locksroot :: Locksroot
  balance_proof_party :: Address

record SerializedSQLiteStorage =
  state_changes :: "BalanceProofRecord list"
  events :: "BalanceProofRecord list"

definition matches_record :: "CanonicalIdentifier \<Rightarrow> Locksroot \<Rightarrow> Address \<Rightarrow> BalanceProofRecord \<Rightarrow> bool" where
  "matches_record cid lr party r \<longleftrightarrow>
     balance_proof_canonical_identifier r = cid \<and> balance_proof_locksroot r = lr
       \<and> balance_proof_party r = party"

definition get_state_change_with_balance_proof_by_locksroot ::
  "SerializedSQLiteStorage \<Rightarrow> CanonicalIdentifier \<Rightarrow> Locksroot \<Rightarrow> Address
     \<Rightarrow> BalanceProofRecord option" where
  "get_state_change_with_balance_proof_by_locksroot storage cid lr sender_address =
     find (matches_record cid lr sender_address) (state_changes storage)"

definition get_event_with_balance_proof_by_locksroot ::
  "SerializedSQLiteStorage \<Rightarrow> CanonicalIdentifier \<Rightarrow> Locksroot \<Rightarrow> Address
     \<Rightarrow> BalanceProofRecord option" where
  "get_event_with_balance_proof_by_locksroot storage cid lr recipient =
     find (matches_record cid lr recipient) (events storage)"

subsection \<open>The resolvers\<close>

text \<open>
  A resolver that queries the chain returns its result, or the exception it raised,
  together with the chain service, whose \<open>queries\<close> tell what was asked. \<open>try\<close> ...
  \<open>except ValueError\<close> catches \<open>ValueError\<close> only; the handler's own exception
  propagates.
\<close>

definition get_contractreceivechannelsettled_data_from_event ::
  "BlockChainService \<Rightarrow> ChainState \<Rightarrow> ('a ChannelArgs_scheme) DecodedEvent \<Rightarrow> BlockNumber
     \<Rightarrow> (exn + ChannelSettleState option) \<times> BlockChainService" where
  "get_contractreceivechannelsettled_data_from_event chain_service chain_state event
       latest_confirmed_block =
     (let data = event_data event;
          token_network_address = originating_contract event;
          channel_identifier = arg_channel_identifier (args data);
          block_hash = block_hash data;
          canonical_identifier =
            \<lparr>chain_identifier = chain_id chain_state,
             token_network_address = token_network_address,
             channel_identifier = channel_identifier\<rparr>
      in case get_channelstate_by_canonical_identifier chain_state canonical_identifier of
           None \<Rightarrow> (Inr None, chain_service)
         | Some channel_state \<Rightarrow>
             (let (locksroots, chain1) =
                    (case get_onchain_locksroots chain_service
                            (NettingChannelState.canonical_identifier channel_state)
                            (end_address (our_state channel_state))
                            (end_address (partner_state channel_state))
                            (BlockHash block_hash) of
                       (Inl e, chain1) \<Rightarrow>
                         if e = ValueError then
                           get_onchain_locksroots chain1
                             (NettingChannelState.canonical_identifier channel_state)
                             (end_address (our_state channel_state))
                             (end_address (partner_state channel_state))
                             (BlockNum latest_confirmed_block)
                         else (Inl e, chain1)
                     | (Inr ls, chain1) \<Rightarrow> (Inr ls, chain1))
              in case locksroots of
                   Inl e \<Rightarrow> (Inl e, chain1)
                 | Inr (our_locksroot, partner_locksroot) \<Rightarrow>
                     (Inr (Some (ChannelSettleState canonical_identifier
                                   our_locksroot partner_locksroot)), chain1)))"

definition get_contractreceiveupdatetransfer_data_from_event ::
  "ChainState \<Rightarrow> ('a ChannelArgs_scheme) DecodedEvent \<Rightarrow> NettingChannelState option" where
  "get_contractreceiveupdatetransfer_data_from_event chain_state event =
     (let data = event_data event;
          args = args data;
          channel_identifier = arg_channel_identifier args;
          channel_state =
            get_channelstate_by_canonical_identifier chain_state
              \<lparr>chain_identifier = chain_id chain_state,
               token_network_address = originating_contract event,
               channel_identifier = channel_identifier\<rparr>
      in channel_state)"

text \<open>
  The body of the \<open>for\<close> loop of the batch-unlock resolver for one candidate: the record
  found for it, if any. The loop takes the first candidate with a record and stops.
\<close>

definition unlock_record ::
  "ChainState \<Rightarrow> SerializedSQLiteStorage \<Rightarrow> Address \<Rightarrow> UnlockArgs \<Rightarrow> Address \<Rightarrow> ChannelID
     \<Rightarrow> BalanceProofRecord option" where
  "unlock_record chain_state storage tn_address event_args partner candidate =
     (if partner = sender event_args then
        get_state_change_with_balance_proof_by_locksroot storage
          \<lparr>chain_identifier = chain_id chain_state,
           token_network_address = tn_address,
           channel_identifier = candidate\<rparr>
          (locksroot event_args) partner
      else if partner = receiver event_args then
        get_event_with_balance_proof_by_locksroot storage
          \<lparr>chain_identifier = chain_id chain_state,
           token_network_address = tn_address,
           channel_identifier = candidate\<rparr>
          (locksroot event_args) partner
      else None)"

fun unlock_loop ::
  "ChainState \<Rightarrow> SerializedSQLiteStorage \<Rightarrow> Address \<Rightarrow> UnlockArgs \<Rightarrow> Address \<Rightarrow> ChannelID list
     \<Rightarrow> CanonicalIdentifier option" where
  "unlock_loop chain_state storage tn_address event_args partner [] = None"
| "unlock_loop chain_state storage tn_address event_args partner
       (candidate # channel_identifiers) =
     (case unlock_record chain_state storage tn_address event_args partner candidate of
        Some r \<Rightarrow> Some (balance_proof_canonical_identifier r)
      | None \<Rightarrow>
          unlock_loop chain_state storage tn_address event_args partner
            channel_identifiers)"

definition get_contractreceivechannelbatchunlock_data_from_event ::
  "ChainState \<Rightarrow> SerializedSQLiteStorage \<Rightarrow> UnlockArgs DecodedEvent
     \<Rightarrow> exn + CanonicalIdentifier option" where
  "get_contractreceivechannelbatchunlock_data_from_event chain_state storage event =
     (let token_network_address = originating_contract event;
          data = event_data event;
          args = args data;
          participant1 = receiver args;
          participant2 = sender args;
          locksroot = locksroot args
      in case get_token_network_by_address chain_state token_network_address of
           None \<Rightarrow> Inl (AssertionError [])
         | Some token_network_state \<Rightarrow>
             (case (if participant1 = our_address chain_state then Some participant2
                    else if participant2 = our_address chain_state then Some participant1
                    else None) of
                None \<Rightarrow> Inr None
              | Some partner \<Rightarrow>
                  (let channel_identifiers =
                         (case partneraddresses_to_channelidentifiers token_network_state
                                 partner of
                            None \<Rightarrow> []
                          | Some ids \<Rightarrow> ids)
                   in case unlock_loop chain_state storage token_network_address args partner
                             channel_identifiers of
                        None \<Rightarrow>
                          Inl (AssertionError
                                 [Text ''Can not resolve channel_id for unlock with locksroot '',
                                  to_hex locksroot, Text '' and partner '',
                                  to_checksum_address partner, Text ''.''])
                      | Some found \<Rightarrow> Inr (Some found))))"

definition get_contractreceivechannelnew_data_from_event ::
  "ChainState \<Rightarrow> BlockChainService \<Rightarrow> ChannelNewArgs DecodedEvent \<Rightarrow> BlockNumber
     \<Rightarrow> (exn + NewChannelDetails option) \<times> BlockChainService" where
  "get_contractreceivechannelnew_data_from_event chain_state chain_service event
       latest_confirmed_block =
     (let token_network_address = originating_contract event;
          data = event_data event;
          args = args data;
          block_hash = block_hash data;
          participant1 = participant1 args;
          participant2 = participant2 args;
          is_participant =
            (our_address chain_state = participant1 \<or> our_address chain_state = participant2)
      in if \<not> is_participant then (Inr None, chain_service)
         else
           (let channel_proxy =
                  payment_channel chain_service
                    \<lparr>chain_identifier = event_chain_id event,
                     token_network_address = token_network_address,
                     channel_identifier = arg_channel_identifier args\<rparr>;
                (details, chain1) =
                  (case detail chain_service channel_proxy (BlockHash block_hash) of
                     (Inl e, chain1) \<Rightarrow>
                       if e = ValueError then
                         detail chain1 channel_proxy (BlockNum latest_confirmed_block)
                       else (Inl e, chain1)
                   | (Inr d, chain1) \<Rightarrow> (Inr d, chain1))
            in case details of
                 Inl e \<Rightarrow> (Inl e, chain1)
               | Inr channel_details \<Rightarrow>
                   (case get_token_network_registry_by_token_network_address chain_state
                           token_network_address of
                      None \<Rightarrow> (Inl (AssertionError [Text ''Token network missing'']), chain1)
                    | Some token_network_registry \<Rightarrow>
                        (let our_details = our_details (participants_data channel_details);
                             partner_details = partner_details (participants_data channel_details)
                         in (Inr (Some (NewChannelDetails
                                          (event_chain_id event)
                                          (registry_address token_network_registry)
                                          (token_address channel_details)
                                          (participant_address our_details)
                                          (deposit our_details)
                                          (participant_address partner_details)
                                          (deposit partner_details))), chain1)))))"

definition get_contractreceivechannelclosed_data_from_event ::
  "ChainState \<Rightarrow> ('a ChannelArgs_scheme) DecodedEvent \<Rightarrow> CanonicalIdentifier option" where
  "get_contractreceivechannelclosed_data_from_event chain_state event =
     (let token_network_address = originating_contract event;
          data = event_data event;
          args = args data;
          channel_identifier = arg_channel_identifier args;
          channel_state =
            get_channelstate_by_canonical_identifier chain_state
              \<lparr>chain_identifier = chain_id chain_state,
               token_network_address = token_network_address,
               channel_identifier = channel_identifier\<rparr>
      in case channel_state of
           Some cs \<Rightarrow> Some (NettingChannelState.canonical_identifier cs)
         | None \<Rightarrow> None)"

subsection \<open>The queries of one call\<close>

text \<open>
  The parameters of the raw query for the block range \<open>q = (from, to)\<close>: the filter's own
  parameters with \<open>fromBlock\<close> and \<open>toBlock\<close> replaced, as \<open>_do_get_new_entries\<close>
  builds them.
\<close>

definition chunk_params :: "FilterParams \<Rightarrow> int \<times> int \<Rightarrow> FilterParams" where
  "chunk_params fp q = fp\<lparr>fromBlock := Some (BlockNum (fst q)), toBlock := Some (BlockNum (snd q))\<rparr>"

text \<open>
  The block ranges the \<open>while\<close> loop of \<open>get_new_entries\<close> walks through when no query
  fails: the values of \<open>(from_block_number, to_block)\<close> of its iterations.
\<close>

function chunks :: "int \<Rightarrow> int \<Rightarrow> (int \<times> int) list" where
  "chunks f t =
     (if f \<le> t
      then (f, min (f + FILTER_MAX_BLOCK_RANGE) t) # chunks (f + FILTER_MAX_BLOCK_RANGE) t
      else [])"
  by pat_completeness auto
termination
  by (relation "measure (\<lambda>(f, t). nat (t - f + 1))") (auto simp: FILTER_MAX_BLOCK_RANGE_def)

text \<open>Querying a list of block ranges in order, stopping at the first failure.\<close>

fun run_chunks ::
  "StatelessFilter \<Rightarrow> (int \<times> int) list \<Rightarrow> raw_log list \<Rightarrow> (exn + raw_log list) \<times> StatelessFilter" where
  "run_chunks self [] acc = (Inr acc, self)"
| "run_chunks self (q # qs) acc =
     (case eth_getLogs (web3 self) (chunk_params (filter_params self) q) of
        Inl e \<Rightarrow>
          (Inl e, self\<lparr>web3 := (web3 self)\<lparr>getLogs_calls :=
                      getLogs_calls (web3 self) @ [chunk_params (filter_params self) q]\<rparr>\<rparr>)
      | Inr r \<Rightarrow>
          run_chunks (self\<lparr>web3 := (web3 self)\<lparr>getLogs_calls :=
                         getLogs_calls (web3 self) @ [chunk_params (filter_params self) q]\<rparr>,
                       last_block := snd q\<rparr>) qs (acc @ r))"

text \<open>The filter's \<open>fromBlock\<close> as \<open>get_new_entries\<close> resolves it.\<close>

definition filter_from_number :: "StatelessFilter \<Rightarrow> exn + int" where
  "filter_from_number self =
     block_specification_to_number
       (case fromBlock (filter_params self) of
          None \<Rightarrow> BlockNum GENESIS_BLOCK_NUMBER | Some b \<Rightarrow> b)
       (web3 self)"

text \<open>
  The block number \<open>get_all_entries\<close> works with (\<open>block_number or
  self.web3.eth.blockNumber\<close>) and the parameters of its query.
\<close>

definition all_entries_block_number :: "StatelessFilter \<Rightarrow> int option \<Rightarrow> exn + int" where
  "all_entries_block_number self block_number_arg =
     (case block_number_arg of
        Some n \<Rightarrow> if n \<noteq> 0 then Inr n else eth_blockNumber (web3 self)
      | None \<Rightarrow> eth_blockNumber (web3 self))"

definition all_entries_params :: "StatelessFilter \<Rightarrow> int \<Rightarrow> FilterParams" where
  "all_entries_params self block_number =
     (if toBlock (filter_params self) = Some (BlockName ''latest'')
         \<or> toBlock (filter_params self) = Some (BlockName ''pending'')
      then (filter_params self)\<lparr>toBlock := Some (BlockNum block_number)\<rparr>
      else filter_params self)"

text \<open>A sequence of \<open>get_new_entries\<close> calls on one filter, whatever each call returns.\<close>

definition get_new_entries_seq :: "StatelessFilter \<Rightarrow> int list \<Rightarrow> StatelessFilter" where
  "get_new_entries_seq self targets = foldl (\<lambda>s t. snd (get_new_entries s t)) self targets"

text \<open>
  The chunking as the specification words it, for the block ranges \<open>qs\<close> queried by a call
  with cursor \<open>c\<close> and target \<open>t\<close>: \<open>ceil (R / FILTER_MAX_BLOCK_RANGE)\<close> queries for
  \<open>R = t - c\<close>, each of at most \<open>FILTER_MAX_BLOCK_RANGE\<close> blocks, each starting right after
  the one before, the first at \<open>c + 1\<close> and the last ending at \<open>t\<close>.
\<close>

fun contiguous :: "(int \<times> int) list \<Rightarrow> bool" where
  "contiguous (q # q' # qs) = (snd q + 1 = fst q' \<and> contiguous (q' # qs))"
| "contiguous qs = True"

definition spec_chunking :: "int \<Rightarrow> int \<Rightarrow> (int \<times> int) list \<Rightarrow> bool" where
  "spec_chunking c t qs \<longleftrightarrow>
     int (length qs) = \<lceil>real_of_int (t - c) / real_of_int FILTER_MAX_BLOCK_RANGE\<rceil>
     \<and> list_all (\<lambda>q. fst q \<le> snd q \<and> snd q - fst q + 1 \<le> FILTER_MAX_BLOCK_RANGE) qs
     \<and> contiguous qs
     \<and> qs \<noteq> [] \<and> fst (hd qs) = c + 1 \<and> snd (last qs) = t"

subsection \<open>Example nodes and filters\<close>

text \<open>A node that answers every log query with no entries and is at block 300000.\<close>

definition quiet_node :: Web3 where
  "quiet_node =
     \<lparr>eth_getLogs = (\<lambda>fp. Inr []), eth_blockNumber = Inr 300000,
      eth_getBlock_number = (\<lambda>b. Inr 300000), getLogs_calls = []\<rparr>"

text \<open>A node that answers log queries starting at block 0 only and times out on every other.\<close>

definition flaky_node :: Web3 where
  "flaky_node =
     \<lparr>eth_getLogs = (\<lambda>fp. if fromBlock fp = Some (BlockNum 0) then Inr []
                           else Inl (OtherError ''timeout'')),
      eth_blockNumber = Inr 300000,
      eth_getBlock_number = (\<lambda>b. Inr 300000), getLogs_calls = []\<rparr>"

definition open_params :: FilterParams where
  "open_params = \<lparr>address = Some ''token network'', topics = [], fromBlock = None, toBlock = None\<rparr>"

definition from50_params :: FilterParams where
  "from50_params =
     \<lparr>address = Some ''token network'', topics = [], fromBlock = Some (BlockNum 50),
      toBlock = None\<rparr>"

definition latest_params :: FilterParams where
  "latest_params =
     \<lparr>address = Some ''token network'', topics = [], fromBlock = Some (BlockNum 0),
      toBlock = Some (BlockName ''latest'')\<rparr>"

definition to0_params :: FilterParams where
  "to0_params =
     \<lparr>address = Some ''token network'', topics = [], fromBlock = None,
      toBlock = Some (BlockNum 0)\<rparr>"

subsection \<open>Example chain states, chains, histories and events\<close>

text \<open>
  The canonical identifier the channel resolvers derive from an event: the chain id of
  the local state, the originating contract and the \<open>channel_identifier\<close> argument.
\<close>

definition derived_canonical_identifier ::
  "ChainState \<Rightarrow> ('a ChannelArgs_scheme) DecodedEvent \<Rightarrow> CanonicalIdentifier" where
  "derived_canonical_identifier chain_state event =
     \<lparr>chain_identifier = chain_id chain_state,
      token_network_address = originating_contract event,
      channel_identifier = arg_channel_identifier (args (event_data event))\<rparr>"

text \<open>The canonical identifier the ChannelNew resolver asks the chain about.\<close>

definition new_canonical_identifier :: "ChannelNewArgs DecodedEvent \<Rightarrow> CanonicalIdentifier" where
  "new_canonical_identifier event =
     \<lparr>chain_identifier = event_chain_id event,
      token_network_address = originating_contract event,
      channel_identifier = arg_channel_identifier (args (event_data event))\<rparr>"

text \<open>
  The partner the batch-unlock resolver picks: the sender when the local node is the
  receiver, the receiver when it is the sender, none otherwise.
\<close>

definition unlock_partner :: "ChainState \<Rightarrow> UnlockArgs \<Rightarrow> Address option" where
  "unlock_partner chain_state event_args =
     (if receiver event_args = our_address chain_state then Some (sender event_args)
      else if sender event_args = our_address chain_state then Some (receiver event_args)
      else None)"

text \<open>
  Node \<open>A\<close> on chain 1 has channel 7 with \<open>B\<close> in token network \<open>TN1\<close> of registry \<open>REG\<close>,
  and has had the channels 7, 8 and 9 with \<open>B\<close>.
\<close>

definition channel7 :: NettingChannelState where
  "channel7 =
     \<lparr>canonical_identifier =
        \<lparr>chain_identifier = 1, token_network_address = ''TN1'', channel_identifier = 7\<rparr>,
      our_state = \<lparr>end_address = ''A''\<rparr>,
      partner_state = \<lparr>end_address = ''B''\<rparr>\<rparr>"

definition node_A :: ChainState where
  "node_A =
     \<lparr>chain_id = 1, our_address = ''A'',
      channelstates =
        [\<lparr>chain_identifier = 1, token_network_address = ''TN1'', channel_identifier = 7\<rparr>
           \<mapsto> channel7],
      token_networks =
        [''TN1'' \<mapsto> \<lparr>partneraddresses_to_channelidentifiers = [''B'' \<mapsto> [7, 8, 9]]\<rparr>],
      token_network_registries = [''TN1'' \<mapsto> \<lparr>registry_address = ''REG''\<rparr>]\<rparr>"

text \<open>The same node with the channels with \<open>B\<close> enumerated in another order.\<close>

definition node_A_reordered :: ChainState where
  "node_A_reordered =
     node_A\<lparr>token_networks :=
        [''TN1'' \<mapsto> \<lparr>partneraddresses_to_channelidentifiers = [''B'' \<mapsto> [9, 7, 8]]\<rparr>]\<rparr>"

text \<open>The same node without the registry of \<open>TN1\<close>.\<close>

definition node_A_no_registry :: ChainState where
  "node_A_no_registry = node_A\<lparr>token_network_registries := Map.empty\<rparr>"

definition details7 :: ChannelDetails where
  "details7 =
     \<lparr>token_address = ''TOKEN'',
      participants_data =
        \<lparr>our_details = \<lparr>participant_address = ''A'', deposit = 10\<rparr>,
         partner_details = \<lparr>participant_address = ''B'', deposit = 20\<rparr>\<rparr>\<rparr>"

text \<open>A chain that has pruned every block asked for by hash and answers at block numbers.\<close>

definition pruned_chain :: BlockChainService where
  "pruned_chain =
     \<lparr>onchain_locksroots =
        (\<lambda>cid p1 p2 b. case b of BlockNum n \<Rightarrow> Inr (''L1'', ''L2'') | _ \<Rightarrow> Inl ValueError),
      channel_detail = (\<lambda>cid b. case b of BlockNum n \<Rightarrow> Inr details7 | _ \<Rightarrow> Inl ValueError),
      queries = []\<rparr>"

definition settled_event :: "ChannelArgs DecodedEvent" where
  "settled_event =
     \<lparr>event_chain_id = 1, originating_contract = ''TN1'',
      event_data = \<lparr>args = \<lparr>arg_channel_identifier = 7\<rparr>, block_hash = ''H''\<rparr>\<rparr>"

definition unknown_channel_event :: "ChannelArgs DecodedEvent" where
  "unknown_channel_event =
     \<lparr>event_chain_id = 1, originating_contract = ''TN1'',
      event_data = \<lparr>args = \<lparr>arg_channel_identifier = 8\<rparr>, block_hash = ''H''\<rparr>\<rparr>"

definition new_event :: "ChannelNewArgs DecodedEvent" where
  "new_event =
     \<lparr>event_chain_id = 1, originating_contract = ''TN1'',
      event_data =
        \<lparr>args = \<lparr>arg_channel_identifier = 7, participant1 = ''A'', participant2 = ''B''\<rparr>,
         block_hash = ''H''\<rparr>\<rparr>"

definition foreign_new_event :: "ChannelNewArgs DecodedEvent" where
  "foreign_new_event =
     \<lparr>event_chain_id = 1, originating_contract = ''TN1'',
      event_data =
        \<lparr>args = \<lparr>arg_channel_identifier = 5, participant1 = ''C'', participant2 = ''D''\<rparr>,
         block_hash = ''H''\<rparr>\<rparr>"

definition unlock_event :: "UnlockArgs DecodedEvent" where
  "unlock_event =
     \<lparr>event_chain_id = 1, originating_contract = ''TN1'',
      event_data =
        \<lparr>args = \<lparr>receiver = ''A'', sender = ''B'', locksroot = ''LR''\<rparr>, block_hash = ''H''\<rparr>\<rparr>"

definition foreign_unlock_event :: "UnlockArgs DecodedEvent" where
  "foreign_unlock_event =
     \<lparr>event_chain_id = 1, originating_contract = ''TN1'',
      event_data =
        \<lparr>args = \<lparr>receiver = ''C'', sender = ''D'', locksroot = ''LR''\<rparr>, block_hash = ''H''\<rparr>\<rparr>"

text \<open>An unlock between \<open>C\<close> and \<open>D\<close> in the token network \<open>TN2\<close>, which node \<open>A\<close> does not know.\<close>

definition foreign_network_unlock_event :: "UnlockArgs DecodedEvent" where
  "foreign_network_unlock_event =
     \<lparr>event_chain_id = 1, originating_contract = ''TN2'',
      event_data =
        \<lparr>args = \<lparr>receiver = ''C'', sender = ''D'', locksroot = ''LR''\<rparr>, block_hash = ''H''\<rparr>\<rparr>"

text \<open>A history with one balance proof received from \<open>B\<close>, in channel 9 with locksroot \<open>LR\<close>.\<close>

definition history9 :: SerializedSQLiteStorage where
  "history9 =
     \<lparr>state_changes =
        [\<lparr>balance_proof_canonical_identifier =
            \<lparr>chain_identifier = 1, token_network_address = ''TN1'', channel_identifier = 9\<rparr>,
          balance_proof_locksroot = ''LR'', balance_proof_party = ''B''\<rparr>],
      events = []\<rparr>"

definition empty_history :: SerializedSQLiteStorage where
  "empty_history = \<lparr>state_changes = [], events = []\<rparr>"

section \<open>Properties of StatelessFilter\<close>

declare chunks.simps [simp del]
declare get_new_entries_loop.simps [simp del]

lemma FILTER_MAX_BLOCK_RANGE_pos: "0 < FILTER_MAX_BLOCK_RANGE"
  by (simp add: FILTER_MAX_BLOCK_RANGE_def)

text \<open>One chunk query with numeric bounds: the cursor moves to \<open>b\<close> exactly when the query succeeds.\<close>

lemma do_get_new_entries_num:
  "do_get_new_entries self (BlockNum a) (BlockNum b) =
     (case eth_getLogs (web3 self) (chunk_params (filter_params self) (a, b)) of
        Inl e \<Rightarrow>
          (Inl e, self\<lparr>web3 := (web3 self)\<lparr>getLogs_calls :=
                      getLogs_calls (web3 self) @ [chunk_params (filter_params self) (a, b)]\<rparr>\<rparr>)
      | Inr r \<Rightarrow>
          (Inr r, self\<lparr>web3 := (web3 self)\<lparr>getLogs_calls :=
                      getLogs_calls (web3 self) @ [chunk_params (filter_params self) (a, b)]\<rparr>,
                    last_block := b\<rparr>))"
  by (simp add: do_get_new_entries_def getLogs_def chunk_params_def
      block_specification_to_number_def split: sum.splits)

text \<open>The loop queries the ranges of \<open>chunks\<close> in order and stops at the first failure.\<close>

lemma loop_run_chunks:
  "get_new_entries_loop self f t acc = run_chunks self (chunks f t) acc"
proof (induction self f t acc rule: get_new_entries_loop.induct)
  case (1 self f t acc)
  show ?case
  proof (cases "f \<le> t")
    case False
    then show ?thesis
      by (simp add: get_new_entries_loop.simps [of self f t acc] chunks.simps [of f t])
  next
    case True
    show ?thesis
    proof (cases "eth_getLogs (web3 self)
                    (chunk_params (filter_params self) (f, min (f + FILTER_MAX_BLOCK_RANGE) t))")
      case (Inl e)
      with True show ?thesis
        by (simp add: get_new_entries_loop.simps [of self f t acc] chunks.simps [of f t]
            do_get_new_entries_num)
    next
      case (Inr r)
      with True 1 show ?thesis
        by (simp add: get_new_entries_loop.simps [of self f t acc] chunks.simps [of f t]
            do_get_new_entries_num Let_def)
    qed
  qed
qed

lemma get_new_entries_run_chunks:
  "get_new_entries self target =
     (case filter_from_number self of
        Inl e \<Rightarrow> (Inl e, self)
      | Inr f \<Rightarrow> run_chunks self (chunks (max f (last_block self + 1)) target) [])"
  by (simp add: get_new_entries_def filter_from_number_def loop_run_chunks Let_def
      split: sum.splits)

lemma run_chunks_success:
  "run_chunks self qs acc = (Inr r, self') \<Longrightarrow>
     getLogs_calls (web3 self') =
       getLogs_calls (web3 self) @ map (chunk_params (filter_params self)) qs
     \<and> last_block self' = (if qs = [] then last_block self else snd (last qs))
     \<and> (\<forall>q\<in>set qs. \<exists>es. eth_getLogs (web3 self) (chunk_params (filter_params self) q) = Inr es)"
proof (induction qs arbitrary: self acc)
  case Nil
  then show ?case by simp
next
  case (Cons q qs)
  show ?case
  proof (cases "eth_getLogs (web3 self) (chunk_params (filter_params self) q)")
    case (Inl e)
    with Cons.prems show ?thesis by simp
  next
    case (Inr es)
    let ?s1 = "self\<lparr>web3 := (web3 self)\<lparr>getLogs_calls :=
                  getLogs_calls (web3 self) @ [chunk_params (filter_params self) q]\<rparr>,
                last_block := snd q\<rparr>"
    from Inr Cons.prems have "run_chunks ?s1 qs (acc @ es) = (Inr r, self')" by simp
    from Cons.IH [OF this] Inr show ?thesis by simp
  qed
qed

lemma run_chunks_failure:
  "run_chunks self qs acc = (Inl e, self') \<Longrightarrow>
     \<exists>pre q post. qs = pre @ q # post
       \<and> (\<forall>p\<in>set pre. \<exists>es. eth_getLogs (web3 self) (chunk_params (filter_params self) p) = Inr es)
       \<and> eth_getLogs (web3 self) (chunk_params (filter_params self) q) = Inl e
       \<and> getLogs_calls (web3 self') =
             getLogs_calls (web3 self) @ map (chunk_params (filter_params self)) (pre @ [q])
       \<and> last_block self' = (if pre = [] then last_block self else snd (last pre))"
proof (induction qs arbitrary: self acc)
  case Nil
  then show ?case by simp
next
  case (Cons q qs)
  show ?case
  proof (cases "eth_getLogs (web3 self) (chunk_params (filter_params self) q)")
    case (Inl e')
    with Cons.prems have "e' = e" and
      "self' = self\<lparr>web3 := (web3 self)\<lparr>getLogs_calls :=
                  getLogs_calls (web3 self) @ [chunk_params (filter_params self) q]\<rparr>\<rparr>"
      by simp_all
    with Inl have "q # qs = [] @ q # qs
       \<and> (\<forall>p\<in>set []. \<exists>es. eth_getLogs (web3 self) (chunk_params (filter_params self) p) = Inr es)
       \<and> eth_getLogs (web3 self) (chunk_params (filter_params self) q) = Inl e
       \<and> getLogs_calls (web3 self') =
             getLogs_calls (web3 self) @ map (chunk_params (filter_params self)) ([] @ [q])
       \<and> last_block self' =
             (if [] = ([]::(int \<times> int) list) then last_block self else snd (last []))"
      by simp
    then show ?thesis by blast
  next
    case (Inr es)
    let ?s1 = "self\<lparr>web3 := (web3 self)\<lparr>getLogs_calls :=
                  getLogs_calls (web3 self) @ [chunk_params (filter_params self) q]\<rparr>,
                last_block := snd q\<rparr>"
    from Inr Cons.prems have "run_chunks ?s1 qs (acc @ es) = (Inl e, self')" by simp
    from Cons.IH [OF this] obtain pre q' post where
      a: "qs = pre @ q' # post"
      and b: "\<forall>p\<in>set pre. \<exists>es. eth_getLogs (web3 self) (chunk_params (filter_params self) p) = Inr es"
      and c: "eth_getLogs (web3 self) (chunk_params (filter_params self) q') = Inl e"
      and d: "getLogs_calls (web3 self') =
             getLogs_calls (web3 self) @ chunk_params (filter_params self) q
               # map (chunk_params (filter_params self)) (pre @ [q'])"
      and f: "last_block self' = (if pre = [] then snd q else snd (last pre))"
      by auto
    from a b c d f Inr have "q # qs = (q # pre) @ q' # post
       \<and> (\<forall>p\<in>set (q # pre). \<exists>es. eth_getLogs (web3 self) (chunk_params (filter_params self) p) = Inr es)
       \<and> eth_getLogs (web3 self) (chunk_params (filter_params self) q') = Inl e
       \<and> getLogs_calls (web3 self') =
             getLogs_calls (web3 self) @ map (chunk_params (filter_params self)) ((q # pre) @ [q'])
       \<and> last_block self' = (if q # pre = [] then last_block self else snd (last (q # pre)))"
      by simp
    then show ?thesis by blast
  qed
qed

subsection \<open>The block ranges\<close>

lemma length_chunks:
  "int (length (chunks f t)) =
     (if f \<le> t then (t - f + FILTER_MAX_BLOCK_RANGE) div FILTER_MAX_BLOCK_RANGE else 0)"
proof (induction f t rule: chunks.induct)
  case (1 f t)
  show ?case
  proof (cases "f \<le> t")
    case False
    then show ?thesis by (simp add: chunks.simps [of f t])
  next
    case True
    have step: "(t - f + FILTER_MAX_BLOCK_RANGE) div FILTER_MAX_BLOCK_RANGE
                  = (t - f) div FILTER_MAX_BLOCK_RANGE + 1"
      by (simp add: FILTER_MAX_BLOCK_RANGE_def)
    show ?thesis
    proof (cases "f + FILTER_MAX_BLOCK_RANGE \<le> t")
      case True
      with 1 \<open>f \<le> t\<close> step show ?thesis
        by (simp add: chunks.simps [of f t])
    next
      case False
      with \<open>f \<le> t\<close> have "(t - f) div FILTER_MAX_BLOCK_RANGE = 0"
        by simp
      with 1 \<open>f \<le> t\<close> False step show ?thesis
        by (simp add: chunks.simps [of f t])
    qed
  qed
qed

lemma ceiling_chunks:
  "\<lceil>real_of_int r / real_of_int FILTER_MAX_BLOCK_RANGE\<rceil>
     = (r - 1 + FILTER_MAX_BLOCK_RANGE) div FILTER_MAX_BLOCK_RANGE"
proof -
  have "\<lceil>real_of_int r / real_of_int FILTER_MAX_BLOCK_RANGE\<rceil> = - (- r div FILTER_MAX_BLOCK_RANGE)"
    by (rule ceiling_divide_eq_div)
  also have "\<dots> = (r - 1 + FILTER_MAX_BLOCK_RANGE) div FILTER_MAX_BLOCK_RANGE"
    unfolding FILTER_MAX_BLOCK_RANGE_def by linarith
  finally show ?thesis .
qed

lemma nth_chunks:
  "k < length (chunks f t) \<Longrightarrow>
     chunks f t ! k = (f + int k * FILTER_MAX_BLOCK_RANGE,
                       min (f + int k * FILTER_MAX_BLOCK_RANGE + FILTER_MAX_BLOCK_RANGE) t)"
proof (induction f t arbitrary: k rule: chunks.induct)
  case (1 f t)
  show ?case
  proof (cases "f \<le> t")
    case False
    with 1 show ?thesis by (simp add: chunks.simps [of f t])
  next
    case True
    show ?thesis
    proof (cases k)
      case 0
      with True show ?thesis by (simp add: chunks.simps [of f t])
    next
      case (Suc j)
      with True "1.prems" have "j < length (chunks (f + FILTER_MAX_BLOCK_RANGE) t)"
        by (simp add: chunks.simps [of f t])
      from "1.IH" [OF True this] Suc True show ?thesis
        by (simp add: chunks.simps [of f t] algebra_simps)
    qed
  qed
qed

lemma chunks_bounds:
  "q \<in> set (chunks f t) \<Longrightarrow> f \<le> fst q \<and> fst q \<le> snd q \<and> snd q \<le> t"
proof (induction f t rule: chunks.induct)
  case (1 f t)
  show ?case
  proof (cases "f \<le> t")
    case False
    with "1.prems" show ?thesis by (simp add: chunks.simps [of f t])
  next
    case True
    have pos: "0 < FILTER_MAX_BLOCK_RANGE" by (rule FILTER_MAX_BLOCK_RANGE_pos)
    from True "1.prems" consider "q = (f, min (f + FILTER_MAX_BLOCK_RANGE) t)"
      | "q \<in> set (chunks (f + FILTER_MAX_BLOCK_RANGE) t)"
      by (auto simp: chunks.simps [of f t])
    then show ?thesis
    proof cases
      case 1
      with True pos show ?thesis by simp
    next
      case 2
      from "1.IH" [OF True 2] pos show ?thesis by simp
    qed
  qed
qed

lemma union_chunks:
  "(\<Union>q\<in>set (chunks f t). {fst q..snd q}) = {f..t}"
proof (induction f t rule: chunks.induct)
  case (1 f t)
  show ?case
  proof (cases "f \<le> t")
    case False
    then show ?thesis by (simp add: chunks.simps [of f t])
  next
    case True
    have pos: "0 < FILTER_MAX_BLOCK_RANGE" by (rule FILTER_MAX_BLOCK_RANGE_pos)
    have "{f..min (f + FILTER_MAX_BLOCK_RANGE) t} \<union> {f + FILTER_MAX_BLOCK_RANGE..t} = {f..t}"
      using True pos by auto
    with 1 True show ?thesis
      by (simp add: chunks.simps [of f t])
  qed
qed

lemma last_chunks: "f \<le> t \<Longrightarrow> snd (last (chunks f t)) = t"
proof (induction f t rule: chunks.induct)
  case (1 f t)
  show ?case
  proof (cases "f + FILTER_MAX_BLOCK_RANGE \<le> t")
    case True
    with 1 show ?thesis
      by (simp add: chunks.simps [of f t] chunks.simps [of "f + FILTER_MAX_BLOCK_RANGE" t])
  next
    case False
    with "1.prems" show ?thesis
      by (simp add: chunks.simps [of f t] chunks.simps [of "f + FILTER_MAX_BLOCK_RANGE" t])
  qed
qed

subsection \<open>Claim C1\<close>

lemma chunks_from50: "chunks 50 100050 = [(50, 100050), (100050, 100050)]"
  by (simp add: chunks.simps FILTER_MAX_BLOCK_RANGE_def)

lemma quiet_open_250000:
  "get_new_entries (StatelessFilter_init quiet_node open_params) 250000 =
     (Inr [], \<lparr>web3 = quiet_node\<lparr>getLogs_calls :=
                  map (chunk_params open_params) [(0, 100000), (100000, 200000), (200000, 250000)]\<rparr>,
               filter_params = open_params, last_block = 250000\<rparr>)"
  by (simp add: get_new_entries_run_chunks filter_from_number_def StatelessFilter_init_def
      quiet_node_def open_params_def block_specification_to_number_def chunks.simps
      GENESIS_BLOCK_NUMBER_def FILTER_MAX_BLOCK_RANGE_def)

text \<open>
  C1, as amended. A call \<open>get_new_entries target\<close> starts at
  \<open>start = max f (cursor + 1)\<close>, where \<open>f\<close> is the filter's resolved \<open>fromBlock\<close>. If
  \<open>start \<le> target\<close> and the call returns, it has issued exactly
  \<open>ceil ((target - start + 1) / FILTER_MAX_BLOCK_RANGE)\<close> raw log queries, each with the
  filter's parameters apart from the block range; the \<open>k\<close>-th query starts at block
  \<open>start + k * FILTER_MAX_BLOCK_RANGE\<close> (so the queries are in strictly ascending order), is
  not empty and ends at or before \<open>target\<close>; and the union of the queried ranges is exactly
  the blocks from \<open>start\<close> to \<open>target\<close>.
\<close>

theorem get_new_entries_chunking:
  assumes "filter_from_number self = Inr f"
    and "start = max f (last_block self + 1)"
    and "start \<le> target"
    and "get_new_entries self target = (Inr r, self')"
  shows "\<exists>qs. getLogs_calls (web3 self') =
                 getLogs_calls (web3 self) @ map (chunk_params (filter_params self)) qs
     \<and> int (length qs)
         = \<lceil>real_of_int (target - start + 1) / real_of_int FILTER_MAX_BLOCK_RANGE\<rceil>
     \<and> (\<forall>k<length qs. fst (qs ! k) = start + int k * FILTER_MAX_BLOCK_RANGE
            \<and> fst (qs ! k) \<le> snd (qs ! k) \<and> snd (qs ! k) \<le> target)
     \<and> (\<Union>q\<in>set qs. {fst q..snd q}) = {start..target}"
proof -
  let ?qs = "chunks start target"
  from assms(1,2,4) have run: "run_chunks self ?qs [] = (Inr r, self')"
    by (simp add: get_new_entries_run_chunks)
  from run_chunks_success [OF run]
  have calls: "getLogs_calls (web3 self') =
                 getLogs_calls (web3 self) @ map (chunk_params (filter_params self)) ?qs"
    by simp
  have "\<lceil>real_of_int (target - start + 1) / real_of_int FILTER_MAX_BLOCK_RANGE\<rceil>
          = (target - start + 1 - 1 + FILTER_MAX_BLOCK_RANGE) div FILTER_MAX_BLOCK_RANGE"
    by (rule ceiling_chunks)
  with assms(3) have len: "int (length ?qs)
         = \<lceil>real_of_int (target - start + 1) / real_of_int FILTER_MAX_BLOCK_RANGE\<rceil>"
    by (simp only: length_chunks if_True add_diff_cancel)
  have nth: "\<forall>k<length ?qs. fst (?qs ! k) = start + int k * FILTER_MAX_BLOCK_RANGE
            \<and> fst (?qs ! k) \<le> snd (?qs ! k) \<and> snd (?qs ! k) \<le> target"
  proof (intro allI impI)
    fix k assume k: "k < length ?qs"
    then have "?qs ! k \<in> set ?qs" by simp
    from chunks_bounds [OF this] nth_chunks [OF k]
    show "fst (?qs ! k) = start + int k * FILTER_MAX_BLOCK_RANGE
            \<and> fst (?qs ! k) \<le> snd (?qs ! k) \<and> snd (?qs ! k) \<le> target"
      by simp
  qed
  have un: "(\<Union>q\<in>set ?qs. {fst q..snd q}) = {start..target}"
    by (rule union_chunks)
  from calls len nth un show ?thesis by blast
qed

text \<open>
  The witness: a fresh filter without \<open>fromBlock\<close> asked for block 250000 issues the three
  queries of the 250001 blocks from 0.
\<close>

theorem get_new_entries_chunking_witness:
  "filter_from_number (StatelessFilter_init quiet_node open_params) = Inr 0
   \<and> (0::int) = max 0 (last_block (StatelessFilter_init quiet_node open_params) + 1)
   \<and> (0::int) \<le> 250000
   \<and> fst (get_new_entries (StatelessFilter_init quiet_node open_params) 250000) = Inr []
   \<and> (\<exists>qs. getLogs_calls
              (web3 (snd (get_new_entries (StatelessFilter_init quiet_node open_params) 250000))) =
            getLogs_calls (web3 (StatelessFilter_init quiet_node open_params))
              @ map (chunk_params (filter_params (StatelessFilter_init quiet_node open_params))) qs
     \<and> int (length qs) = \<lceil>real_of_int (250000 - 0 + 1) / real_of_int FILTER_MAX_BLOCK_RANGE\<rceil>
     \<and> (\<forall>k<length qs. fst (qs ! k) = 0 + int k * FILTER_MAX_BLOCK_RANGE
            \<and> fst (qs ! k) \<le> snd (qs ! k) \<and> snd (qs ! k) \<le> 250000)
     \<and> (\<Union>q\<in>set qs. {fst q..snd q}) = {0..250000})"
proof -
  let ?s = "StatelessFilter_init quiet_node open_params"
  have h1: "filter_from_number ?s = Inr 0"
    by (simp add: filter_from_number_def StatelessFilter_init_def open_params_def
        block_specification_to_number_def GENESIS_BLOCK_NUMBER_def)
  have h2: "(0::int) = max 0 (last_block ?s + 1)"
    by (simp add: StatelessFilter_init_def)
  have h3: "(0::int) \<le> 250000" by simp
  have h4: "get_new_entries ?s 250000 = (Inr [], snd (get_new_entries ?s 250000))"
    by (simp add: quiet_open_250000)
  have h5: "fst (get_new_entries ?s 250000) = Inr []"
    by (simp add: quiet_open_250000)
  from get_new_entries_chunking [OF h1 h2 h3 h4] h1 h2 h5 show ?thesis
    by simp
qed

text \<open>
  The claim as the specification states it fails on a fresh filter with \<open>fromBlock = 50\<close>
  asked for block 100050: with cursor \<open>-1\<close> the range \<open>(cursor, target]\<close> starts at block 0,
  but the two queries issued are for the blocks 50 to 100050 and 100050 to 100050. Their
  union starts at block 50, the first spans 100001 blocks, and block 100050 is in both.
\<close>

theorem get_new_entries_chunking_counterexample:
  "getLogs_calls (web3 (snd (get_new_entries (StatelessFilter_init quiet_node from50_params) 100050)))
     = map (chunk_params from50_params) [(50, 100050), (100050, 100050)]
   \<and> \<not> spec_chunking (- 1) 100050 [(50, 100050), (100050, 100050)]
   \<and> \<not> (100050 - 50 + 1 \<le> FILTER_MAX_BLOCK_RANGE)
   \<and> \<not> contiguous [(50, 100050), (100050, 100050)]"
  by (simp add: get_new_entries_run_chunks filter_from_number_def StatelessFilter_init_def
      quiet_node_def from50_params_def block_specification_to_number_def chunks_from50
      spec_chunking_def FILTER_MAX_BLOCK_RANGE_def)

subsection \<open>Claim C2\<close>

lemma flaky_open_150000:
  "get_new_entries (StatelessFilter_init flaky_node open_params) 150000 =
     (Inl (OtherError ''timeout''),
      \<lparr>web3 = flaky_node\<lparr>getLogs_calls :=
                  map (chunk_params open_params) [(0, 100000), (100000, 150000)]\<rparr>,
       filter_params = open_params, last_block = 100000\<rparr>)"
  by (simp add: get_new_entries_run_chunks filter_from_number_def StatelessFilter_init_def
      flaky_node_def open_params_def block_specification_to_number_def chunks.simps
      chunk_params_def GENESIS_BLOCK_NUMBER_def FILTER_MAX_BLOCK_RANGE_def)

lemma chunks_0_150000: "chunks 0 150000 = [(0, 100000), (100000, 150000)]"
  by (simp add: chunks.simps FILTER_MAX_BLOCK_RANGE_def)

text \<open>
  C2, as amended. For a call of \<open>get_new_entries\<close> whose \<open>fromBlock\<close> resolves: when the
  query of any chunk of the call's range fails, the whole call fails, and a call that
  fails returns no entries. It fails with the error of the first chunk query that fails,
  which is the last query issued, after the queries of the chunks before it have
  succeeded. The cursor is then the \<open>toBlock\<close> of the last query that succeeded in this
  call, and has its old value only when the first query failed. When the call returns
  and its range is not empty, the cursor is \<open>target\<close>.
\<close>

theorem get_new_entries_failure_cursor:
  assumes "filter_from_number self = Inr f"
    and "get_new_entries self target = (res, self')"
  shows "(\<forall>q\<in>set (chunks (max f (last_block self + 1)) target). \<forall>e.
            eth_getLogs (web3 self) (chunk_params (filter_params self) q) = Inl e
            \<longrightarrow> (\<exists>e'. res = Inl e'))
       \<and> (\<forall>e. res = Inl e \<longrightarrow>
            (\<exists>pre q post. chunks (max f (last_block self + 1)) target = pre @ q # post
               \<and> getLogs_calls (web3 self') =
                        getLogs_calls (web3 self)
                          @ map (chunk_params (filter_params self)) (pre @ [q])
               \<and> (\<forall>p\<in>set pre. \<exists>es.
                     eth_getLogs (web3 self) (chunk_params (filter_params self) p) = Inr es)
               \<and> eth_getLogs (web3 self) (chunk_params (filter_params self) q) = Inl e
               \<and> last_block self' = (if pre = [] then last_block self else snd (last pre))))
       \<and> (\<forall>r. res = Inr r \<and> max f (last_block self + 1) \<le> target \<longrightarrow>
            last_block self' = target)"
proof -
  let ?qs = "chunks (max f (last_block self + 1)) target"
  from assms have run: "run_chunks self ?qs [] = (res, self')"
    by (simp add: get_new_entries_run_chunks)
  have forward: "\<exists>e'. res = Inl e'"
    if "q \<in> set ?qs"
      and "eth_getLogs (web3 self) (chunk_params (filter_params self) q) = Inl e" for q e
  proof (cases res)
    case (Inl e')
    then show ?thesis by blast
  next
    case (Inr r)
    with run have "run_chunks self ?qs [] = (Inr r, self')" by simp
    from run_chunks_success [OF this] that(1)
    obtain es where "eth_getLogs (web3 self) (chunk_params (filter_params self) q) = Inr es"
      by blast
    with that(2) show ?thesis by simp
  qed
  have fails: "\<exists>pre q post. ?qs = pre @ q # post
               \<and> getLogs_calls (web3 self') =
                        getLogs_calls (web3 self)
                          @ map (chunk_params (filter_params self)) (pre @ [q])
               \<and> (\<forall>p\<in>set pre. \<exists>es.
                     eth_getLogs (web3 self) (chunk_params (filter_params self) p) = Inr es)
               \<and> eth_getLogs (web3 self) (chunk_params (filter_params self) q) = Inl e
               \<and> last_block self' = (if pre = [] then last_block self else snd (last pre))"
    if "res = Inl e" for e
  proof -
    from run that have "run_chunks self ?qs [] = (Inl e, self')" by simp
    from run_chunks_failure [OF this] show ?thesis by blast
  qed
  have succeeds: "last_block self' = target"
    if "res = Inr r" and "max f (last_block self + 1) \<le> target" for r
  proof -
    from run that(1) have "run_chunks self ?qs [] = (Inr r, self')" by simp
    from run_chunks_success [OF this]
    have lb: "last_block self' = (if ?qs = [] then last_block self else snd (last ?qs))"
      by simp
    from that(2) have "?qs \<noteq> []"
      by (simp add: chunks.simps [of "max f (last_block self + 1)" target])
    with lb last_chunks [OF that(2)] show ?thesis by simp
  qed
  from forward fails succeeds show ?thesis by blast
qed

text \<open>
  The witness: on the node that times out after the first chunk, the query of the second
  chunk of the call for block 150000 fails, so the call fails, and it leaves the cursor
  at 100000, the end of the chunk that succeeded; on the node that answers every query,
  the call for block 250000 leaves the cursor at 250000.
\<close>

theorem get_new_entries_failure_cursor_witness:
  "filter_from_number (StatelessFilter_init flaky_node open_params) = Inr 0
   \<and> (100000, 150000)
       \<in> set (chunks (max 0 (last_block (StatelessFilter_init flaky_node open_params) + 1)) 150000)
   \<and> eth_getLogs (web3 (StatelessFilter_init flaky_node open_params))
         (chunk_params (filter_params (StatelessFilter_init flaky_node open_params))
            (100000, 150000)) = Inl (OtherError ''timeout'')
   \<and> (\<exists>e'. fst (get_new_entries (StatelessFilter_init flaky_node open_params) 150000) = Inl e')
   \<and> fst (get_new_entries (StatelessFilter_init flaky_node open_params) 150000)
       = Inl (OtherError ''timeout'')
   \<and> (\<exists>pre q post.
          chunks (max 0 (last_block (StatelessFilter_init flaky_node open_params) + 1)) 150000
            = pre @ q # post
        \<and> getLogs_calls
                 (web3 (snd (get_new_entries (StatelessFilter_init flaky_node open_params) 150000)))
               = getLogs_calls (web3 (StatelessFilter_init flaky_node open_params))
                   @ map (chunk_params (filter_params (StatelessFilter_init flaky_node open_params)))
                       (pre @ [q])
        \<and> (\<forall>p\<in>set pre. \<exists>es.
              eth_getLogs (web3 (StatelessFilter_init flaky_node open_params))
                (chunk_params (filter_params (StatelessFilter_init flaky_node open_params)) p)
              = Inr es)
        \<and> eth_getLogs (web3 (StatelessFilter_init flaky_node open_params))
            (chunk_params (filter_params (StatelessFilter_init flaky_node open_params)) q)
            = Inl (OtherError ''timeout'')
        \<and> last_block (snd (get_new_entries (StatelessFilter_init flaky_node open_params) 150000))
            = (if pre = [] then last_block (StatelessFilter_init flaky_node open_params)
               else snd (last pre)))
   \<and> filter_from_number (StatelessFilter_init quiet_node open_params) = Inr 0
   \<and> fst (get_new_entries (StatelessFilter_init quiet_node open_params) 250000) = Inr []
   \<and> max 0 (last_block (StatelessFilter_init quiet_node open_params) + 1) \<le> (250000::int)
   \<and> last_block (snd (get_new_entries (StatelessFilter_init quiet_node open_params) 250000))
       = 250000"
proof -
  let ?s = "StatelessFilter_init flaky_node open_params"
  let ?t = "StatelessFilter_init quiet_node open_params"
  have h1: "filter_from_number ?s = Inr 0"
    by (simp add: filter_from_number_def StatelessFilter_init_def open_params_def
        block_specification_to_number_def GENESIS_BLOCK_NUMBER_def)
  have h2: "get_new_entries ?s 150000 = (fst (get_new_entries ?s 150000), snd (get_new_entries ?s 150000))"
    by simp
  have h4: "(100000, 150000) \<in> set (chunks (max 0 (last_block ?s + 1)) 150000)"
    by (simp add: StatelessFilter_init_def chunks_0_150000)
  have h5: "eth_getLogs (web3 ?s) (chunk_params (filter_params ?s) (100000, 150000))
              = Inl (OtherError ''timeout'')"
    by (simp add: StatelessFilter_init_def flaky_node_def chunk_params_def)
  note inst = get_new_entries_failure_cursor [OF h1 h2]
  from inst h4 h5 have h6: "\<exists>e'. fst (get_new_entries ?s 150000) = Inl e'"
    by blast
  have h3: "fst (get_new_entries ?s 150000) = Inl (OtherError ''timeout'')"
    by (simp add: flaky_open_150000)
  from inst h3 have h7: "\<exists>pre q post.
          chunks (max 0 (last_block ?s + 1)) 150000 = pre @ q # post
        \<and> getLogs_calls (web3 (snd (get_new_entries ?s 150000)))
               = getLogs_calls (web3 ?s) @ map (chunk_params (filter_params ?s)) (pre @ [q])
        \<and> (\<forall>p\<in>set pre. \<exists>es.
              eth_getLogs (web3 ?s) (chunk_params (filter_params ?s) p) = Inr es)
        \<and> eth_getLogs (web3 ?s) (chunk_params (filter_params ?s) q)
            = Inl (OtherError ''timeout'')
        \<and> last_block (snd (get_new_entries ?s 150000))
            = (if pre = [] then last_block ?s else snd (last pre))"
    by blast
  have k1: "filter_from_number ?t = Inr 0"
    by (simp add: filter_from_number_def StatelessFilter_init_def open_params_def
        block_specification_to_number_def GENESIS_BLOCK_NUMBER_def)
  have k2: "get_new_entries ?t 250000 = (Inr [], snd (get_new_entries ?t 250000))"
    by (simp add: quiet_open_250000)
  have k3: "fst (get_new_entries ?t 250000) = Inr []"
    by (simp add: quiet_open_250000)
  have k4: "max 0 (last_block ?t + 1) \<le> (250000::int)"
    by (simp add: StatelessFilter_init_def)
  from get_new_entries_failure_cursor [OF k1 k2] k4
  have k5: "last_block (snd (get_new_entries ?t 250000)) = 250000"
    by simp
  from h1 h4 h5 h6 h3 h7 k1 k3 k4 k5 show ?thesis
    by blast
qed

text \<open>
  The claim as the specification states it fails on that node: the call for block 150000
  on a fresh filter fails, yet the cursor, \<open>-1\<close> before the call, is 100000 after it.
\<close>

theorem get_new_entries_failure_cursor_counterexample:
  "fst (get_new_entries (StatelessFilter_init flaky_node open_params) 150000)
     = Inl (OtherError ''timeout'')
   \<and> last_block (StatelessFilter_init flaky_node open_params) = - 1
   \<and> last_block (snd (get_new_entries (StatelessFilter_init flaky_node open_params) 150000))
       = 100000"
  by (simp add: flaky_open_150000) (simp add: StatelessFilter_init_def)

subsection \<open>Claim C4\<close>

lemma run_chunks_cursor:
  assumes "run_chunks self qs acc = (res, self')"
    and "\<forall>q\<in>set qs. last_block self \<le> snd q"
  shows "last_block self \<le> last_block self'"
proof (cases res)
  case (Inl e)
  with assms(1) have "run_chunks self qs acc = (Inl e, self')" by simp
  from run_chunks_failure [OF this] obtain pre q post where
    qs: "qs = pre @ q # post"
    and lb: "last_block self' = (if pre = [] then last_block self else snd (last pre))"
    by blast
  show ?thesis
  proof (cases "pre = []")
    case True
    with lb show ?thesis by simp
  next
    case False
    then have "last pre \<in> set qs" using qs by simp
    with assms(2) lb False show ?thesis by simp
  qed
next
  case (Inr r)
  with assms(1) have "run_chunks self qs acc = (Inr r, self')" by simp
  from run_chunks_success [OF this]
  have lb: "last_block self' = (if qs = [] then last_block self else snd (last qs))"
    by simp
  show ?thesis
  proof (cases "qs = []")
    case True
    with lb show ?thesis by simp
  next
    case False
    then have "last qs \<in> set qs" by simp
    with assms(2) lb False show ?thesis by simp
  qed
qed

lemma get_new_entries_cursor:
  "last_block self \<le> last_block (snd (get_new_entries self target))"
proof (cases "filter_from_number self")
  case (Inl e)
  then show ?thesis by (simp add: get_new_entries_run_chunks)
next
  case (Inr f)
  let ?qs = "chunks (max f (last_block self + 1)) target"
  obtain res self' where run: "run_chunks self ?qs [] = (res, self')"
    by (cases "run_chunks self ?qs []") simp
  have "\<forall>q\<in>set ?qs. last_block self \<le> snd q"
  proof
    fix q assume "q \<in> set ?qs"
    from chunks_bounds [OF this] show "last_block self \<le> snd q" by simp
  qed
  from run_chunks_cursor [OF run this] Inr run show ?thesis
    by (simp add: get_new_entries_run_chunks)
qed

lemma quiet_latest_250000:
  "get_new_entries (StatelessFilter_init quiet_node latest_params) 250000 =
     (Inr [], \<lparr>web3 = quiet_node\<lparr>getLogs_calls :=
                  map (chunk_params latest_params) [(0, 100000), (100000, 200000), (200000, 250000)]\<rparr>,
               filter_params = latest_params, last_block = 250000\<rparr>)"
  by (simp add: get_new_entries_run_chunks filter_from_number_def StatelessFilter_init_def
      quiet_node_def latest_params_def block_specification_to_number_def chunks.simps
      FILTER_MAX_BLOCK_RANGE_def)

text \<open>What \<open>get_all_entries\<close> does, and where it leaves the cursor.\<close>

lemma block_specification_to_number_calls:
  "block_specification_to_number b (w\<lparr>getLogs_calls := c\<rparr>) = block_specification_to_number b w"
  by (simp add: block_specification_to_number_def split: BlockSpecification.splits)

lemma get_all_entries_cases:
  "get_all_entries self arg =
     (case all_entries_block_number self arg of
        Inl e \<Rightarrow> (Inl e, self)
      | Inr bn \<Rightarrow>
          (let fp = all_entries_params self bn;
               self1 = self\<lparr>web3 := (web3 self)\<lparr>getLogs_calls :=
                          getLogs_calls (web3 self) @ [fp]\<rparr>\<rparr>
           in case eth_getLogs (web3 self) fp of
                Inl e \<Rightarrow> (Inl e, self1)
              | Inr result \<Rightarrow>
                  (case toBlock fp of
                     Some to_block \<Rightarrow>
                       if truthy (Some to_block) then
                         (case block_specification_to_number to_block (web3 self) of
                            Inl e \<Rightarrow> (Inl e, self1)
                          | Inr n \<Rightarrow> (Inr result, self1\<lparr>last_block := n\<rparr>))
                       else (Inr result, self1\<lparr>last_block := bn\<rparr>)
                   | None \<Rightarrow> (Inr result, self1\<lparr>last_block := bn\<rparr>))))"
proof (cases "all_entries_block_number self arg")
  case (Inl e)
  then show ?thesis
    by (simp add: get_all_entries_def all_entries_block_number_def)
next
  case (Inr n)
  then have "get_all_entries self arg =
     (let fp = all_entries_params self n;
          (res, w) = getLogs (web3 self) fp;
          self1 = self\<lparr>web3 := w\<rparr>
      in case res of
           Inl e \<Rightarrow> (Inl e, self1)
         | Inr result \<Rightarrow>
             (case toBlock fp of
                Some to_block \<Rightarrow>
                  if truthy (Some to_block) then
                    (case block_specification_to_number to_block w of
                       Inl e \<Rightarrow> (Inl e, self1)
                     | Inr n \<Rightarrow> (Inr result, self1\<lparr>last_block := n\<rparr>))
                  else (Inr result, self1\<lparr>last_block := n\<rparr>)
              | None \<Rightarrow> (Inr result, self1\<lparr>last_block := n\<rparr>)))"
    by (simp add: get_all_entries_def all_entries_block_number_def all_entries_params_def)
  with Inr show ?thesis
    by (simp add: getLogs_def Let_def block_specification_to_number_calls
        split: sum.splits option.splits)
qed

lemma get_all_entries_failure_cursor:
  "fst (get_all_entries self arg) = Inl e \<Longrightarrow>
     last_block (snd (get_all_entries self arg)) = last_block self"
  by (auto simp add: get_all_entries_cases Let_def split: sum.splits option.splits if_splits)

lemma get_all_entries_toBlock_cursor:
  "fst (get_all_entries self arg) = Inr r \<Longrightarrow> all_entries_block_number self arg = Inr bn \<Longrightarrow>
   toBlock (all_entries_params self bn) = Some tb \<Longrightarrow> truthy (Some tb) \<Longrightarrow>
     block_specification_to_number tb (web3 self)
       = Inr (last_block (snd (get_all_entries self arg)))"
  by (simp add: get_all_entries_cases Let_def split: sum.splits)

lemma get_all_entries_default_cursor:
  "fst (get_all_entries self arg) = Inr r \<Longrightarrow> all_entries_block_number self arg = Inr bn \<Longrightarrow>
   \<not> truthy (toBlock (all_entries_params self bn)) \<Longrightarrow>
     last_block (snd (get_all_entries self arg)) = bn"
  by (auto simp add: get_all_entries_cases Let_def split: sum.splits option.splits if_splits)

text \<open>
  C4, as amended. No sequence of \<open>get_new_entries\<close> calls, with any targets, from any
  state of the filter and whether the calls succeed or fail, leaves the cursor lower than
  it was. A call of \<open>get_all_entries\<close> that fails leaves the cursor as it was. One that
  succeeds assigns the cursor without comparing it with its old value: the number that
  the \<open>toBlock\<close> of its query resolves to (\<open>latest\<close> and \<open>pending\<close> having been replaced
  by the block number of the call), or the block number of the call when the query has
  no \<open>toBlock\<close> or one that is 0 or empty.
\<close>

theorem cursor_after_calls:
  "last_block self \<le> last_block (get_new_entries_seq self targets)
   \<and> (\<forall>e. fst (get_all_entries self arg) = Inl e \<longrightarrow>
          last_block (snd (get_all_entries self arg)) = last_block self)
   \<and> (\<forall>r bn tb. fst (get_all_entries self arg) = Inr r
          \<and> all_entries_block_number self arg = Inr bn
          \<and> toBlock (all_entries_params self bn) = Some tb \<and> truthy (Some tb) \<longrightarrow>
          block_specification_to_number tb (web3 self)
            = Inr (last_block (snd (get_all_entries self arg))))
   \<and> (\<forall>r bn. fst (get_all_entries self arg) = Inr r
          \<and> all_entries_block_number self arg = Inr bn
          \<and> \<not> truthy (toBlock (all_entries_params self bn)) \<longrightarrow>
          last_block (snd (get_all_entries self arg)) = bn)"
proof -
  have mono: "last_block self \<le> last_block (get_new_entries_seq self targets)"
  proof (induction targets arbitrary: self)
    case Nil
    show ?case by (simp add: get_new_entries_seq_def)
  next
    case (Cons t targets)
    have "last_block self \<le> last_block (snd (get_new_entries self t))"
      by (rule get_new_entries_cursor)
    also have "\<dots> \<le> last_block (get_new_entries_seq (snd (get_new_entries self t)) targets)"
      by (rule Cons.IH)
    finally show ?case by (simp add: get_new_entries_seq_def)
  qed
  from mono get_all_entries_failure_cursor [of self arg]
    get_all_entries_toBlock_cursor [of self arg]
    get_all_entries_default_cursor [of self arg]
  show ?thesis by blast
qed

text \<open>
  The witness: a \<open>get_all_entries\<close> call whose query times out leaves the cursor of a
  fresh filter as it was; with \<open>toBlock = latest\<close> and block number 5 the cursor becomes
  5; with \<open>toBlock = 0\<close> and block number 7 the cursor becomes 7.
\<close>

theorem cursor_after_calls_witness:
  "fst (get_all_entries (StatelessFilter_init flaky_node from50_params) (Some 7))
     = Inl (OtherError ''timeout'')
   \<and> last_block (snd (get_all_entries (StatelessFilter_init flaky_node from50_params) (Some 7)))
       = last_block (StatelessFilter_init flaky_node from50_params)
   \<and> fst (get_all_entries (StatelessFilter_init quiet_node latest_params) (Some 5)) = Inr []
   \<and> all_entries_block_number (StatelessFilter_init quiet_node latest_params) (Some 5) = Inr 5
   \<and> toBlock (all_entries_params (StatelessFilter_init quiet_node latest_params) 5)
       = Some (BlockNum 5)
   \<and> truthy (Some (BlockNum 5))
   \<and> last_block (snd (get_all_entries (StatelessFilter_init quiet_node latest_params) (Some 5)))
       = 5
   \<and> fst (get_all_entries (StatelessFilter_init quiet_node to0_params) (Some 7)) = Inr []
   \<and> all_entries_block_number (StatelessFilter_init quiet_node to0_params) (Some 7) = Inr 7
   \<and> \<not> truthy (toBlock (all_entries_params (StatelessFilter_init quiet_node to0_params) 7))
   \<and> last_block (snd (get_all_entries (StatelessFilter_init quiet_node to0_params) (Some 7)))
       = 7"
proof -
  let ?f = "StatelessFilter_init flaky_node from50_params"
  let ?l = "StatelessFilter_init quiet_node latest_params"
  let ?z = "StatelessFilter_init quiet_node to0_params"
  have f1: "fst (get_all_entries ?f (Some 7)) = Inl (OtherError ''timeout'')"
    by (simp add: get_all_entries_def getLogs_def StatelessFilter_init_def flaky_node_def
        from50_params_def Let_def)
  from cursor_after_calls [of ?f "[]" "Some 7"] f1
  have f2: "last_block (snd (get_all_entries ?f (Some 7))) = last_block ?f"
    by blast
  have l1: "fst (get_all_entries ?l (Some 5)) = Inr []"
    by (simp add: get_all_entries_def getLogs_def StatelessFilter_init_def quiet_node_def
        latest_params_def block_specification_to_number_def Let_def)
  have l2: "all_entries_block_number ?l (Some 5) = Inr 5"
    by (simp add: all_entries_block_number_def)
  have l3: "toBlock (all_entries_params ?l 5) = Some (BlockNum 5)"
    by (simp add: all_entries_params_def StatelessFilter_init_def latest_params_def)
  have l4: "truthy (Some (BlockNum 5))" by simp
  from cursor_after_calls [of ?l "[]" "Some 5"] l1 l2 l3 l4
  have "block_specification_to_number (BlockNum 5) (web3 ?l)
          = Inr (last_block (snd (get_all_entries ?l (Some 5))))"
    by blast
  then have l5: "last_block (snd (get_all_entries ?l (Some 5))) = 5"
    by (simp add: block_specification_to_number_def)
  have z1: "fst (get_all_entries ?z (Some 7)) = Inr []"
    by (simp add: get_all_entries_def getLogs_def StatelessFilter_init_def quiet_node_def
        to0_params_def block_specification_to_number_def Let_def)
  have z2: "all_entries_block_number ?z (Some 7) = Inr 7"
    by (simp add: all_entries_block_number_def)
  have z3: "\<not> truthy (toBlock (all_entries_params ?z 7))"
    by (simp add: all_entries_params_def StatelessFilter_init_def to0_params_def)
  from cursor_after_calls [of ?z "[]" "Some 7"] z1 z2 z3
  have z4: "last_block (snd (get_all_entries ?z (Some 7))) = 7"
    by blast
  from f1 f2 l1 l2 l3 l4 l5 z1 z2 z3 z4 show ?thesis by blast
qed

text \<open>
  The claim as the specification states it fails for \<open>get_all_entries\<close>: on a filter with
  \<open>toBlock = latest\<close> whose cursor a call of \<open>get_new_entries\<close> has moved to 250000, the
  call \<open>get_all_entries 5\<close> succeeds and leaves the cursor at 5.
\<close>

theorem cursor_monotone_counterexample:
  "last_block (snd (get_new_entries (StatelessFilter_init quiet_node latest_params) 250000))
     = 250000
   \<and> fst (get_all_entries
            (snd (get_new_entries (StatelessFilter_init quiet_node latest_params) 250000))
            (Some 5)) = Inr []
   \<and> last_block (snd (get_all_entries
            (snd (get_new_entries (StatelessFilter_init quiet_node latest_params) 250000))
            (Some 5))) = 5"
  by (simp add: quiet_latest_250000)
     (simp add: get_all_entries_def getLogs_def quiet_node_def latest_params_def
        block_specification_to_number_def)

subsection \<open>Claim C10\<close>

text \<open>
  For the 250001 blocks up to block 250000, \<open>get_all_entries\<close> issues one query where
  \<open>get_new_entries\<close> issues three.
\<close>

lemma all_entries_versus_new_entries:
  "length (getLogs_calls (web3 (snd
      (get_all_entries (StatelessFilter_init quiet_node open_params) (Some 250000))))) = 1
   \<and> length (getLogs_calls (web3 (snd
      (get_new_entries (StatelessFilter_init quiet_node open_params) 250000)))) = 3"
  by (simp add: quiet_open_250000)
     (simp add: get_all_entries_def getLogs_def StatelessFilter_init_def quiet_node_def
        open_params_def Let_def)

text \<open>
  C10. \<open>get_all_entries\<close> issues a single raw log query, whatever the range: the queries
  recorded after the call are those recorded before it followed by one query with the
  filter's own parameters, in which only a \<open>toBlock\<close> of \<open>latest\<close> or \<open>pending\<close> is
  replaced by the block number of the call. (No query is issued when asking the node
  for its block number has failed.)
\<close>

theorem get_all_entries_single_query:
  "getLogs_calls (web3 (snd (get_all_entries self block_number_arg))) =
     getLogs_calls (web3 self)
       @ (case all_entries_block_number self block_number_arg of
            Inl e \<Rightarrow> []
          | Inr block_number \<Rightarrow> [all_entries_params self block_number])"
proof (cases "all_entries_block_number self block_number_arg")
  case (Inl e)
  then show ?thesis
    by (simp add: get_all_entries_def all_entries_block_number_def)
next
  case (Inr n)
  then have "get_all_entries self block_number_arg =
     (let fp = all_entries_params self n;
          (res, w) = getLogs (web3 self) fp;
          self1 = self\<lparr>web3 := w\<rparr>
      in case res of
           Inl e \<Rightarrow> (Inl e, self1)
         | Inr result \<Rightarrow>
             (case toBlock fp of
                Some to_block \<Rightarrow>
                  if truthy (Some to_block) then
                    (case block_specification_to_number to_block w of
                       Inl e \<Rightarrow> (Inl e, self1)
                     | Inr n \<Rightarrow> (Inr result, self1\<lparr>last_block := n\<rparr>))
                  else (Inr result, self1\<lparr>last_block := n\<rparr>)
              | None \<Rightarrow> (Inr result, self1\<lparr>last_block := n\<rparr>)))"
    by (simp add: get_all_entries_def all_entries_block_number_def all_entries_params_def)
  with Inr show ?thesis
    by (simp add: getLogs_def Let_def split: sum.splits option.splits)
qed

section \<open>Properties of the resolvers\<close>

subsection \<open>The pruning fallback\<close>

lemma settled_pruned:
  assumes "get_channelstate_by_canonical_identifier chain_state
       (derived_canonical_identifier chain_state ev) = Some cs"
    and "onchain_locksroots chain (NettingChannelState.canonical_identifier cs)
         (end_address (our_state cs)) (end_address (partner_state cs))
         (BlockHash (block_hash (event_data ev))) = Inl ValueError"
  shows "get_contractreceivechannelsettled_data_from_event chain chain_state ev latest =
           ((case onchain_locksroots chain (NettingChannelState.canonical_identifier cs)
                    (end_address (our_state cs)) (end_address (partner_state cs))
                    (BlockNum latest) of
               Inl e \<Rightarrow> Inl e
             | Inr (our_locksroot, partner_locksroot) \<Rightarrow>
                 Inr (Some (ChannelSettleState (derived_canonical_identifier chain_state ev)
                              our_locksroot partner_locksroot))),
            chain\<lparr>queries := queries chain @
              [LocksrootsQuery (NettingChannelState.canonical_identifier cs)
                 (end_address (our_state cs)) (end_address (partner_state cs))
                 (BlockHash (block_hash (event_data ev))),
               LocksrootsQuery (NettingChannelState.canonical_identifier cs)
                 (end_address (our_state cs)) (end_address (partner_state cs))
                 (BlockNum latest)]\<rparr>)"
  using assms
  by (simp add: get_contractreceivechannelsettled_data_from_event_def
        derived_canonical_identifier_def get_onchain_locksroots_def Let_def
        split: sum.splits prod.splits)

lemma new_pruned:
  assumes "our_address chain_state = participant1 (args (event_data nev))
         \<or> our_address chain_state = participant2 (args (event_data nev))"
    and "channel_detail chain (new_canonical_identifier nev)
           (BlockHash (block_hash (event_data nev))) = Inl ValueError"
  shows "get_contractreceivechannelnew_data_from_event chain_state chain nev latest =
           ((case channel_detail chain (new_canonical_identifier nev) (BlockNum latest) of
               Inl e \<Rightarrow> Inl e
             | Inr d \<Rightarrow>
                 (case get_token_network_registry_by_token_network_address chain_state
                         (originating_contract nev) of
                    None \<Rightarrow> Inl (AssertionError [Text ''Token network missing''])
                  | Some registry \<Rightarrow>
                      Inr (Some (NewChannelDetails (event_chain_id nev)
                                   (registry_address registry) (token_address d)
                                   (participant_address (our_details (participants_data d)))
                                   (deposit (our_details (participants_data d)))
                                   (participant_address (partner_details (participants_data d)))
                                   (deposit (partner_details (participants_data d))))))),
            chain\<lparr>queries := queries chain @
              [DetailQuery (new_canonical_identifier nev) (BlockHash (block_hash (event_data nev))),
               DetailQuery (new_canonical_identifier nev) (BlockNum latest)]\<rparr>)"
proof -
  let ?cid = "new_canonical_identifier nev"
  let ?chain1 = "chain\<lparr>queries := queries chain @
                   [DetailQuery ?cid (BlockHash (block_hash (event_data nev)))]\<rparr>"
  have first: "detail chain ?cid (BlockHash (block_hash (event_data nev)))
                 = (Inl ValueError, ?chain1)"
    using assms(2) by (simp add: detail_def)
  have second: "detail ?chain1 ?cid (BlockNum latest)
                 = (channel_detail chain ?cid (BlockNum latest),
                    chain\<lparr>queries := queries chain @
                      [DetailQuery ?cid (BlockHash (block_hash (event_data nev))),
                       DetailQuery ?cid (BlockNum latest)]\<rparr>)"
    by (simp add: detail_def)
  have unfold: "get_contractreceivechannelnew_data_from_event chain_state chain nev latest =
      (let (details, chain1) = detail ?chain1 ?cid (BlockNum latest)
       in case details of
            Inl e \<Rightarrow> (Inl e, chain1)
          | Inr d \<Rightarrow>
              (case get_token_network_registry_by_token_network_address chain_state
                      (originating_contract nev) of
                 None \<Rightarrow> (Inl (AssertionError [Text ''Token network missing'']), chain1)
               | Some registry \<Rightarrow>
                   (Inr (Some (NewChannelDetails (event_chain_id nev)
                                 (registry_address registry) (token_address d)
                                 (participant_address (our_details (participants_data d)))
                                 (deposit (our_details (participants_data d)))
                                 (participant_address (partner_details (participants_data d)))
                                 (deposit (partner_details (participants_data d))))), chain1)))"
  proof -
    from first have first':
      "detail chain
         \<lparr>chain_identifier = event_chain_id nev,
          token_network_address = originating_contract nev,
          channel_identifier = arg_channel_identifier (args (event_data nev))\<rparr>
         (BlockHash (block_hash (event_data nev))) = (Inl ValueError, ?chain1)"
      by (simp add: new_canonical_identifier_def)
    have is_participant:
      "(\<not> (our_address chain_state = participant1 (args (event_data nev))
           \<or> our_address chain_state = participant2 (args (event_data nev)))) = False"
      using assms(1) by simp
    show ?thesis
      unfolding get_contractreceivechannelnew_data_from_event_def Let_def payment_channel_def
        is_participant first' new_canonical_identifier_def
      by (simp split: prod.splits sum.splits)
  qed
  show ?thesis
    unfolding unfold second
    by (cases "channel_detail chain ?cid (BlockNum latest)") (simp_all split: option.splits)
qed

subsection \<open>The batch-unlock search\<close>

lemma unlock_record_canonical_identifier:
  assumes "unlock_record chain_state storage tn event_args partner c = Some r"
  shows "balance_proof_canonical_identifier r =
           \<lparr>chain_identifier = chain_id chain_state, token_network_address = tn,
            channel_identifier = c\<rparr>"
proof -
  from assms have
    "find (matches_record \<lparr>chain_identifier = chain_id chain_state, token_network_address = tn,
             channel_identifier = c\<rparr> (locksroot event_args) partner) (state_changes storage)
       = Some r
     \<or> find (matches_record \<lparr>chain_identifier = chain_id chain_state, token_network_address = tn,
             channel_identifier = c\<rparr> (locksroot event_args) partner) (events storage)
       = Some r"
    by (simp add: unlock_record_def get_state_change_with_balance_proof_by_locksroot_def
        get_event_with_balance_proof_by_locksroot_def split: if_splits)
  then have "matches_record \<lparr>chain_identifier = chain_id chain_state, token_network_address = tn,
             channel_identifier = c\<rparr> (locksroot event_args) partner r"
    by (auto simp: find_Some_iff)
  then show ?thesis by (simp add: matches_record_def)
qed

lemma unlock_loop_none:
  "\<forall>c\<in>set ids. unlock_record chain_state storage tn event_args partner c = None \<Longrightarrow>
     unlock_loop chain_state storage tn event_args partner ids = None"
  by (induction ids) simp_all

lemma unlock_loop_unique:
  assumes "c \<in> set ids"
    and "unlock_record chain_state storage tn event_args partner c = Some r"
    and "\<forall>c'\<in>set ids. c' \<noteq> c \<longrightarrow>
           unlock_record chain_state storage tn event_args partner c' = None"
  shows "unlock_loop chain_state storage tn event_args partner ids =
           Some \<lparr>chain_identifier = chain_id chain_state, token_network_address = tn,
                 channel_identifier = c\<rparr>"
  using assms
proof (induction ids)
  case Nil
  then show ?case by simp
next
  case (Cons x ids)
  show ?case
  proof (cases "x = c")
    case True
    with Cons.prems(2) unlock_record_canonical_identifier [OF Cons.prems(2)]
    show ?thesis by simp
  next
    case False
    with Cons.prems have "c \<in> set ids"
      and "unlock_record chain_state storage tn event_args partner x = None"
      and "\<forall>c'\<in>set ids. c' \<noteq> c \<longrightarrow>
             unlock_record chain_state storage tn event_args partner c' = None"
      by simp_all
    with Cons.IH Cons.prems(2) show ?thesis by simp
  qed
qed

lemma unlock_resolver_search:
  assumes "get_token_network_by_address chain_state (originating_contract event) = Some tns"
    and "unlock_partner chain_state (args (event_data event)) = Some partner"
    and "partneraddresses_to_channelidentifiers tns partner = Some ids"
  shows "get_contractreceivechannelbatchunlock_data_from_event chain_state storage event =
           (case unlock_loop chain_state storage (originating_contract event)
                   (args (event_data event)) partner ids of
              None \<Rightarrow>
                Inl (AssertionError
                       [Text ''Can not resolve channel_id for unlock with locksroot '',
                        to_hex (locksroot (args (event_data event))), Text '' and partner '',
                        to_checksum_address partner, Text ''.''])
            | Some found \<Rightarrow> Inr (Some found))"
  using assms
  by (simp add: get_contractreceivechannelbatchunlock_data_from_event_def unlock_partner_def
      Let_def split: if_splits)

text \<open>A partner without an entry has no candidates, and the unlock cannot be resolved.\<close>

lemma batchunlock_unknown_partner:
  assumes "get_token_network_by_address chain_state (originating_contract event) = Some tns"
    and "unlock_partner chain_state (args (event_data event)) = Some partner"
    and "partneraddresses_to_channelidentifiers tns partner = None"
  shows "get_contractreceivechannelbatchunlock_data_from_event chain_state storage event =
           Inl (AssertionError
                  [Text ''Can not resolve channel_id for unlock with locksroot '',
                   to_hex (locksroot (args (event_data event))), Text '' and partner '',
                   to_checksum_address partner, Text ''.''])"
  using assms
  by (simp add: get_contractreceivechannelbatchunlock_data_from_event_def unlock_partner_def
      Let_def split: if_splits)

subsection \<open>Claim C3\<close>

text \<open>
  C3, as amended. When the first on-chain query of a resolver, at the event's block hash,
  raises \<open>ValueError\<close>, the resolver issues exactly one more query, the same one at
  \<open>latest_confirmed_block\<close>, and nothing after it. If that retry raises, its exception
  propagates. Otherwise the ChannelSettled resolver returns the settle state built from
  the retry's locksroots, and the ChannelNew resolver returns the channel details built
  from the retry's answer provided the token network registry of the originating contract
  is known locally; when it is not, the resolver raises the "Token network missing"
  assertion error after the retry.
\<close>

theorem pruned_block_single_retry:
  "(get_channelstate_by_canonical_identifier chain_state
       (derived_canonical_identifier chain_state ev) = Some cs
     \<and> onchain_locksroots chain (NettingChannelState.canonical_identifier cs)
         (end_address (our_state cs)) (end_address (partner_state cs))
         (BlockHash (block_hash (event_data ev))) = Inl ValueError
     \<longrightarrow> get_contractreceivechannelsettled_data_from_event chain chain_state ev latest =
           ((case onchain_locksroots chain (NettingChannelState.canonical_identifier cs)
                    (end_address (our_state cs)) (end_address (partner_state cs))
                    (BlockNum latest) of
               Inl e \<Rightarrow> Inl e
             | Inr (our_locksroot, partner_locksroot) \<Rightarrow>
                 Inr (Some (ChannelSettleState (derived_canonical_identifier chain_state ev)
                              our_locksroot partner_locksroot))),
            chain\<lparr>queries := queries chain @
              [LocksrootsQuery (NettingChannelState.canonical_identifier cs)
                 (end_address (our_state cs)) (end_address (partner_state cs))
                 (BlockHash (block_hash (event_data ev))),
               LocksrootsQuery (NettingChannelState.canonical_identifier cs)
                 (end_address (our_state cs)) (end_address (partner_state cs))
                 (BlockNum latest)]\<rparr>))
   \<and> ((our_address chain_state = participant1 (args (event_data nev))
         \<or> our_address chain_state = participant2 (args (event_data nev)))
       \<and> channel_detail chain (new_canonical_identifier nev)
           (BlockHash (block_hash (event_data nev))) = Inl ValueError
     \<longrightarrow> get_contractreceivechannelnew_data_from_event chain_state chain nev latest =
           ((case channel_detail chain (new_canonical_identifier nev) (BlockNum latest) of
               Inl e \<Rightarrow> Inl e
             | Inr d \<Rightarrow>
                 (case get_token_network_registry_by_token_network_address chain_state
                         (originating_contract nev) of
                    None \<Rightarrow> Inl (AssertionError [Text ''Token network missing''])
                  | Some registry \<Rightarrow>
                      Inr (Some (NewChannelDetails (event_chain_id nev)
                                   (registry_address registry) (token_address d)
                                   (participant_address (our_details (participants_data d)))
                                   (deposit (our_details (participants_data d)))
                                   (participant_address (partner_details (participants_data d)))
                                   (deposit (partner_details (participants_data d))))))),
            chain\<lparr>queries := queries chain @
              [DetailQuery (new_canonical_identifier nev) (BlockHash (block_hash (event_data nev))),
               DetailQuery (new_canonical_identifier nev) (BlockNum latest)]\<rparr>))"
  using settled_pruned [of chain_state ev cs chain latest]
    new_pruned [of chain_state nev chain latest]
  by blast

text \<open>
  The witness: node \<open>A\<close>, on a chain that has pruned the event's block, resolves the
  settlement of channel 7 and the opening of channel 7 from the answers at block 100,
  after two queries each.
\<close>

theorem pruned_block_single_retry_witness:
  "get_channelstate_by_canonical_identifier node_A
       (derived_canonical_identifier node_A settled_event) = Some channel7
   \<and> onchain_locksroots pruned_chain (NettingChannelState.canonical_identifier channel7)
         (end_address (our_state channel7)) (end_address (partner_state channel7))
         (BlockHash (block_hash (event_data settled_event))) = Inl ValueError
   \<and> fst (get_contractreceivechannelsettled_data_from_event pruned_chain node_A settled_event 100)
       = Inr (Some (ChannelSettleState
                      \<lparr>chain_identifier = 1, token_network_address = ''TN1'',
                       channel_identifier = 7\<rparr> ''L1'' ''L2''))
   \<and> queries (snd (get_contractreceivechannelsettled_data_from_event pruned_chain node_A
                     settled_event 100))
       = [LocksrootsQuery \<lparr>chain_identifier = 1, token_network_address = ''TN1'',
                           channel_identifier = 7\<rparr> ''A'' ''B'' (BlockHash ''H''),
          LocksrootsQuery \<lparr>chain_identifier = 1, token_network_address = ''TN1'',
                           channel_identifier = 7\<rparr> ''A'' ''B'' (BlockNum 100)]
   \<and> (our_address node_A = participant1 (args (event_data new_event))
        \<or> our_address node_A = participant2 (args (event_data new_event)))
   \<and> channel_detail pruned_chain (new_canonical_identifier new_event)
         (BlockHash (block_hash (event_data new_event))) = Inl ValueError
   \<and> fst (get_contractreceivechannelnew_data_from_event node_A pruned_chain new_event 100)
       = Inr (Some (NewChannelDetails 1 ''REG'' ''TOKEN'' ''A'' 10 ''B'' 20))
   \<and> queries (snd (get_contractreceivechannelnew_data_from_event node_A pruned_chain
                     new_event 100))
       = [DetailQuery \<lparr>chain_identifier = 1, token_network_address = ''TN1'',
                       channel_identifier = 7\<rparr> (BlockHash ''H''),
          DetailQuery \<lparr>chain_identifier = 1, token_network_address = ''TN1'',
                       channel_identifier = 7\<rparr> (BlockNum 100)]"
proof -
  have h1: "get_channelstate_by_canonical_identifier node_A
       (derived_canonical_identifier node_A settled_event) = Some channel7"
    by (simp add: get_channelstate_by_canonical_identifier_def derived_canonical_identifier_def
        node_A_def settled_event_def)
  have h2: "onchain_locksroots pruned_chain (NettingChannelState.canonical_identifier channel7)
         (end_address (our_state channel7)) (end_address (partner_state channel7))
         (BlockHash (block_hash (event_data settled_event))) = Inl ValueError"
    by (simp add: pruned_chain_def)
  have h3: "our_address node_A = participant1 (args (event_data new_event))
        \<or> our_address node_A = participant2 (args (event_data new_event))"
    by (simp add: node_A_def new_event_def)
  have h4: "channel_detail pruned_chain (new_canonical_identifier new_event)
         (BlockHash (block_hash (event_data new_event))) = Inl ValueError"
    by (simp add: pruned_chain_def)
  from pruned_block_single_retry
         [of node_A settled_event channel7 pruned_chain 100 new_event] h1 h2 h3 h4
  have settled: "get_contractreceivechannelsettled_data_from_event pruned_chain node_A
                   settled_event 100 =
           ((case onchain_locksroots pruned_chain (NettingChannelState.canonical_identifier channel7)
                    (end_address (our_state channel7)) (end_address (partner_state channel7))
                    (BlockNum 100) of
               Inl e \<Rightarrow> Inl e
             | Inr (our_locksroot, partner_locksroot) \<Rightarrow>
                 Inr (Some (ChannelSettleState (derived_canonical_identifier node_A settled_event)
                              our_locksroot partner_locksroot))),
            pruned_chain\<lparr>queries := queries pruned_chain @
              [LocksrootsQuery (NettingChannelState.canonical_identifier channel7)
                 (end_address (our_state channel7)) (end_address (partner_state channel7))
                 (BlockHash (block_hash (event_data settled_event))),
               LocksrootsQuery (NettingChannelState.canonical_identifier channel7)
                 (end_address (our_state channel7)) (end_address (partner_state channel7))
                 (BlockNum 100)]\<rparr>)"
    and new: "get_contractreceivechannelnew_data_from_event node_A pruned_chain new_event 100 =
           ((case channel_detail pruned_chain (new_canonical_identifier new_event) (BlockNum 100) of
               Inl e \<Rightarrow> Inl e
             | Inr d \<Rightarrow>
                 (case get_token_network_registry_by_token_network_address node_A
                         (originating_contract new_event) of
                    None \<Rightarrow> Inl (AssertionError [Text ''Token network missing''])
                  | Some registry \<Rightarrow>
                      Inr (Some (NewChannelDetails (event_chain_id new_event)
                                   (registry_address registry) (token_address d)
                                   (participant_address (our_details (participants_data d)))
                                   (deposit (our_details (participants_data d)))
                                   (participant_address (partner_details (participants_data d)))
                                   (deposit (partner_details (participants_data d))))))),
            pruned_chain\<lparr>queries := queries pruned_chain @
              [DetailQuery (new_canonical_identifier new_event)
                 (BlockHash (block_hash (event_data new_event))),
               DetailQuery (new_canonical_identifier new_event) (BlockNum 100)]\<rparr>)"
    by blast+
  have s1: "fst (get_contractreceivechannelsettled_data_from_event pruned_chain node_A
                   settled_event 100)
       = Inr (Some (ChannelSettleState
                      \<lparr>chain_identifier = 1, token_network_address = ''TN1'',
                       channel_identifier = 7\<rparr> ''L1'' ''L2''))"
    unfolding settled
    by (simp add: pruned_chain_def derived_canonical_identifier_def node_A_def settled_event_def)
  have s2: "queries (snd (get_contractreceivechannelsettled_data_from_event pruned_chain node_A
                     settled_event 100))
       = [LocksrootsQuery \<lparr>chain_identifier = 1, token_network_address = ''TN1'',
                           channel_identifier = 7\<rparr> ''A'' ''B'' (BlockHash ''H''),
          LocksrootsQuery \<lparr>chain_identifier = 1, token_network_address = ''TN1'',
                           channel_identifier = 7\<rparr> ''A'' ''B'' (BlockNum 100)]"
    unfolding settled
    by (simp add: pruned_chain_def channel7_def settled_event_def)
  have n1: "fst (get_contractreceivechannelnew_data_from_event node_A pruned_chain new_event 100)
       = Inr (Some (NewChannelDetails 1 ''REG'' ''TOKEN'' ''A'' 10 ''B'' 20))"
    unfolding new
    by (simp add: pruned_chain_def get_token_network_registry_by_token_network_address_def
        node_A_def new_event_def details7_def)
  have n2: "queries (snd (get_contractreceivechannelnew_data_from_event node_A pruned_chain
                     new_event 100))
       = [DetailQuery \<lparr>chain_identifier = 1, token_network_address = ''TN1'',
                       channel_identifier = 7\<rparr> (BlockHash ''H''),
          DetailQuery \<lparr>chain_identifier = 1, token_network_address = ''TN1'',
                       channel_identifier = 7\<rparr> (BlockNum 100)]"
    unfolding new
    by (simp add: pruned_chain_def new_canonical_identifier_def new_event_def)
  from h1 h2 h3 h4 s1 s2 n1 n2 show ?thesis by blast
qed

text \<open>
  The claim as the specification states it fails for the ChannelNew resolver on the node
  that does not know the registry of \<open>TN1\<close>: the query at the block hash raises
  \<open>ValueError\<close>, the retry at block 100 answers, and the resolver raises an assertion error
  instead of returning the details built from the retry.
\<close>

theorem pruned_block_single_retry_counterexample:
  "(our_address node_A_no_registry = participant1 (args (event_data new_event)))
   \<and> channel_detail pruned_chain (new_canonical_identifier new_event)
         (BlockHash (block_hash (event_data new_event))) = Inl ValueError
   \<and> channel_detail pruned_chain (new_canonical_identifier new_event) (BlockNum 100)
       = Inr details7
   \<and> fst (get_contractreceivechannelnew_data_from_event node_A_no_registry pruned_chain
             new_event 100)
       = Inl (AssertionError [Text ''Token network missing''])"
proof -
  have h3: "our_address node_A_no_registry = participant1 (args (event_data new_event))
        \<or> our_address node_A_no_registry = participant2 (args (event_data new_event))"
    by (simp add: node_A_no_registry_def node_A_def new_event_def)
  have h4: "channel_detail pruned_chain (new_canonical_identifier new_event)
         (BlockHash (block_hash (event_data new_event))) = Inl ValueError"
    by (simp add: pruned_chain_def)
  have "fst (get_contractreceivechannelnew_data_from_event node_A_no_registry pruned_chain
             new_event 100)
       = Inl (AssertionError [Text ''Token network missing''])"
    unfolding new_pruned [OF h3 h4]
    by (simp add: pruned_chain_def get_token_network_registry_by_token_network_address_def
        node_A_no_registry_def node_A_def)
  moreover have "our_address node_A_no_registry = participant1 (args (event_data new_event))"
    by (simp add: node_A_no_registry_def node_A_def new_event_def)
  moreover have "channel_detail pruned_chain (new_canonical_identifier new_event) (BlockNum 100)
       = Inr details7"
    by (simp add: pruned_chain_def)
  ultimately show ?thesis using h4 by blast
qed

subsection \<open>Claim C5\<close>

text \<open>
  C5. For a ChannelBatchUnlock event in a known token network, with the local node as
  receiver or sender and the partner's candidate channel identifiers recorded in the
  local state: when the search finds no stored balance proof for the event's locksroot
  under any candidate, the resolver raises an assertion error whose message names the
  locksroot and the partner address; it does not return \<open>None\<close>.
\<close>

theorem batchunlock_unresolved_raises:
  assumes "get_token_network_by_address chain_state (originating_contract event) = Some tns"
    and "unlock_partner chain_state (args (event_data event)) = Some partner"
    and "partneraddresses_to_channelidentifiers tns partner = Some ids"
    and "\<forall>c\<in>set ids. unlock_record chain_state storage (originating_contract event)
                         (args (event_data event)) partner c = None"
  shows "get_contractreceivechannelbatchunlock_data_from_event chain_state storage event =
           Inl (AssertionError
                  [Text ''Can not resolve channel_id for unlock with locksroot '',
                   to_hex (locksroot (args (event_data event))), Text '' and partner '',
                   to_checksum_address partner, Text ''.''])"
  using unlock_resolver_search [OF assms(1,2,3)] unlock_loop_none [OF assms(4)]
  by simp

text \<open>
  The witness: node \<open>A\<close> has the candidates 7, 8 and 9 for partner \<open>B\<close> and an empty
  history, so the unlock with locksroot \<open>LR\<close> sent by \<open>B\<close> cannot be resolved.
\<close>

theorem batchunlock_unresolved_raises_witness:
  "get_token_network_by_address node_A (originating_contract unlock_event)
     = Some \<lparr>partneraddresses_to_channelidentifiers = [''B'' \<mapsto> [7, 8, 9]]\<rparr>
   \<and> unlock_partner node_A (args (event_data unlock_event)) = Some ''B''
   \<and> partneraddresses_to_channelidentifiers
         \<lparr>partneraddresses_to_channelidentifiers = [''B'' \<mapsto> [7, 8, 9]]\<rparr> ''B''
       = Some [7, 8, 9]
   \<and> unlock_record node_A empty_history (originating_contract unlock_event)
         (args (event_data unlock_event)) ''B'' 7 = None
   \<and> unlock_record node_A empty_history (originating_contract unlock_event)
         (args (event_data unlock_event)) ''B'' 8 = None
   \<and> unlock_record node_A empty_history (originating_contract unlock_event)
         (args (event_data unlock_event)) ''B'' 9 = None
   \<and> get_contractreceivechannelbatchunlock_data_from_event node_A empty_history unlock_event =
       Inl (AssertionError
              [Text ''Can not resolve channel_id for unlock with locksroot '',
               to_hex ''LR'', Text '' and partner '', to_checksum_address ''B'', Text ''.''])"
proof -
  let ?tns = "\<lparr>partneraddresses_to_channelidentifiers = [''B'' \<mapsto> [7, 8, 9::int]]\<rparr>"
  have h1: "get_token_network_by_address node_A (originating_contract unlock_event) = Some ?tns"
    by (simp add: get_token_network_by_address_def node_A_def unlock_event_def)
  have h2: "unlock_partner node_A (args (event_data unlock_event)) = Some ''B''"
    by (simp add: unlock_partner_def node_A_def unlock_event_def)
  have h3: "partneraddresses_to_channelidentifiers ?tns ''B'' = Some [7, 8, 9]"
    by simp
  have h4: "\<forall>c\<in>set [7, 8, 9]. unlock_record node_A empty_history (originating_contract unlock_event)
                            (args (event_data unlock_event)) ''B'' c = None"
    by (simp add: unlock_record_def empty_history_def
        get_state_change_with_balance_proof_by_locksroot_def
        get_event_with_balance_proof_by_locksroot_def)
  from batchunlock_unresolved_raises [OF h1 h2 h3 h4] h1 h2 h3 h4 show ?thesis
    by (simp add: unlock_event_def)
qed

subsection \<open>Claim C6\<close>

text \<open>
  C6. For a ChannelBatchUnlock event in a known token network, with the local node as
  receiver or sender: when exactly one of the partner's candidate channel identifiers
  has a stored balance proof for the event's locksroot, the resolver returns the
  canonical identifier of that channel. The candidates enter the hypotheses as a set
  only, so the result is the same for every order in which the list enumerates them.
\<close>

theorem batchunlock_unique_match:
  assumes "get_token_network_by_address chain_state (originating_contract event) = Some tns"
    and "unlock_partner chain_state (args (event_data event)) = Some partner"
    and "partneraddresses_to_channelidentifiers tns partner = Some ids"
    and "c \<in> set ids"
    and "unlock_record chain_state storage (originating_contract event)
           (args (event_data event)) partner c = Some r"
    and "\<forall>c'\<in>set ids. c' \<noteq> c \<longrightarrow>
           unlock_record chain_state storage (originating_contract event)
             (args (event_data event)) partner c' = None"
  shows "get_contractreceivechannelbatchunlock_data_from_event chain_state storage event =
           Inr (Some \<lparr>chain_identifier = chain_id chain_state,
                      token_network_address = originating_contract event,
                      channel_identifier = c\<rparr>)"
  using unlock_resolver_search [OF assms(1,2,3)] unlock_loop_unique [OF assms(4,5,6)]
  by simp

lemma history9_records:
  "unlock_record node_A history9 ''TN1'' (args (event_data unlock_event)) ''B'' c =
     (if c = 9 then Some (hd (state_changes history9)) else None)"
  by (simp add: unlock_record_def history9_def unlock_event_def node_A_def
      get_state_change_with_balance_proof_by_locksroot_def matches_record_def)

lemma history9_records_reordered:
  "unlock_record node_A_reordered history9 ''TN1'' (args (event_data unlock_event)) ''B'' c =
     (if c = 9 then Some (hd (state_changes history9)) else None)"
  by (simp add: unlock_record_def history9_def unlock_event_def node_A_def node_A_reordered_def
      get_state_change_with_balance_proof_by_locksroot_def matches_record_def)

text \<open>
  The witness: the history holds a balance proof of \<open>B\<close> under channel 9 only, and the
  unlock resolves to channel 9 whether the candidates are enumerated as 7, 8, 9 or as
  9, 7, 8.
\<close>

theorem batchunlock_unique_match_witness:
  "unlock_partner node_A (args (event_data unlock_event)) = Some ''B''
   \<and> (9::int) \<in> set [7, 8, 9]
   \<and> unlock_record node_A history9 (originating_contract unlock_event)
           (args (event_data unlock_event)) ''B'' 9 = Some (hd (state_changes history9))
   \<and> unlock_record node_A history9 (originating_contract unlock_event)
         (args (event_data unlock_event)) ''B'' 7 = None
   \<and> unlock_record node_A history9 (originating_contract unlock_event)
         (args (event_data unlock_event)) ''B'' 8 = None
   \<and> get_contractreceivechannelbatchunlock_data_from_event node_A history9 unlock_event =
       Inr (Some \<lparr>chain_identifier = 1, token_network_address = ''TN1'',
                  channel_identifier = 9\<rparr>)
   \<and> get_contractreceivechannelbatchunlock_data_from_event node_A_reordered history9
         unlock_event =
       Inr (Some \<lparr>chain_identifier = 1, token_network_address = ''TN1'',
                  channel_identifier = 9\<rparr>)"
proof -
  let ?tns = "\<lparr>partneraddresses_to_channelidentifiers = [''B'' \<mapsto> [7, 8, 9::int]]\<rparr>"
  let ?tns' = "\<lparr>partneraddresses_to_channelidentifiers = [''B'' \<mapsto> [9, 7, 8::int]]\<rparr>"
  have tn: "originating_contract unlock_event = ''TN1''"
    by (simp add: unlock_event_def)
  have h1: "get_token_network_by_address node_A (originating_contract unlock_event) = Some ?tns"
    by (simp add: get_token_network_by_address_def node_A_def unlock_event_def)
  have h1': "get_token_network_by_address node_A_reordered (originating_contract unlock_event)
               = Some ?tns'"
    by (simp add: get_token_network_by_address_def node_A_reordered_def node_A_def
        unlock_event_def)
  have h2: "unlock_partner node_A (args (event_data unlock_event)) = Some ''B''"
    by (simp add: unlock_partner_def node_A_def unlock_event_def)
  have h2': "unlock_partner node_A_reordered (args (event_data unlock_event)) = Some ''B''"
    by (simp add: unlock_partner_def node_A_reordered_def node_A_def unlock_event_def)
  have h3: "partneraddresses_to_channelidentifiers ?tns ''B'' = Some [7, 8, 9]"
    by simp
  have h3': "partneraddresses_to_channelidentifiers ?tns' ''B'' = Some [9, 7, 8]"
    by simp
  have h4: "(9::int) \<in> set [7, 8, 9]" by simp
  have h4': "(9::int) \<in> set [9, 7, 8]" by simp
  have h5: "unlock_record node_A history9 (originating_contract unlock_event)
           (args (event_data unlock_event)) ''B'' 9 = Some (hd (state_changes history9))"
    by (simp add: tn history9_records)
  have h5': "unlock_record node_A_reordered history9 (originating_contract unlock_event)
           (args (event_data unlock_event)) ''B'' 9 = Some (hd (state_changes history9))"
    by (simp add: tn history9_records_reordered)
  have h6: "\<forall>c'\<in>set [7, 8, 9]. c' \<noteq> 9 \<longrightarrow>
           unlock_record node_A history9 (originating_contract unlock_event)
             (args (event_data unlock_event)) ''B'' c' = None"
    by (simp add: tn history9_records)
  have h6': "\<forall>c'\<in>set [9, 7, 8]. c' \<noteq> 9 \<longrightarrow>
           unlock_record node_A_reordered history9 (originating_contract unlock_event)
             (args (event_data unlock_event)) ''B'' c' = None"
    by (simp add: tn history9_records_reordered)
  have r: "get_contractreceivechannelbatchunlock_data_from_event node_A history9 unlock_event =
       Inr (Some \<lparr>chain_identifier = 1, token_network_address = ''TN1'',
                  channel_identifier = 9\<rparr>)"
    using batchunlock_unique_match [OF h1 h2 h3 h4 h5 h6]
    by (simp add: tn node_A_def)
  have r': "get_contractreceivechannelbatchunlock_data_from_event node_A_reordered history9
              unlock_event =
       Inr (Some \<lparr>chain_identifier = 1, token_network_address = ''TN1'',
                  channel_identifier = 9\<rparr>)"
    using batchunlock_unique_match [OF h1' h2' h3' h4' h5' h6']
    by (simp add: tn node_A_reordered_def node_A_def)
  from h6 have h7: "unlock_record node_A history9 (originating_contract unlock_event)
         (args (event_data unlock_event)) ''B'' 7 = None"
    and h8: "unlock_record node_A history9 (originating_contract unlock_event)
         (args (event_data unlock_event)) ''B'' 8 = None"
    by simp_all
  from h2 h4 h5 h7 h8 r r' show ?thesis by blast
qed

subsection \<open>Claim C7\<close>

text \<open>
  C7, as amended. When neither participant of the event is the local node, the
  ChannelNew resolver returns \<open>None\<close> without raising and without an on-chain query, and
  the ChannelBatchUnlock resolver returns \<open>None\<close> without raising provided the originating
  token network is known locally.
\<close>

theorem not_participant_no_result:
  "(our_address chain_state \<noteq> participant1 (args (event_data nev))
     \<and> our_address chain_state \<noteq> participant2 (args (event_data nev))
     \<longrightarrow> get_contractreceivechannelnew_data_from_event chain_state chain nev latest
           = (Inr None, chain))
   \<and> (receiver (args (event_data uev)) \<noteq> our_address chain_state
       \<and> sender (args (event_data uev)) \<noteq> our_address chain_state
       \<and> get_token_network_by_address chain_state (originating_contract uev) = Some tns
     \<longrightarrow> get_contractreceivechannelbatchunlock_data_from_event chain_state storage uev
           = Inr None)"
  by (simp add: get_contractreceivechannelnew_data_from_event_def
      get_contractreceivechannelbatchunlock_data_from_event_def Let_def)

text \<open>
  The witness: node \<open>A\<close> ignores the opening of a channel between \<open>C\<close> and \<open>D\<close> and an
  unlock between \<open>C\<close> and \<open>D\<close> in \<open>TN1\<close>.
\<close>

theorem not_participant_no_result_witness:
  "our_address node_A \<noteq> participant1 (args (event_data foreign_new_event))
   \<and> our_address node_A \<noteq> participant2 (args (event_data foreign_new_event))
   \<and> fst (get_contractreceivechannelnew_data_from_event node_A pruned_chain foreign_new_event 100)
       = Inr None
   \<and> queries (snd (get_contractreceivechannelnew_data_from_event node_A pruned_chain
                     foreign_new_event 100)) = []
   \<and> receiver (args (event_data foreign_unlock_event)) \<noteq> our_address node_A
   \<and> sender (args (event_data foreign_unlock_event)) \<noteq> our_address node_A
   \<and> get_token_network_by_address node_A (originating_contract foreign_unlock_event)
       = Some \<lparr>partneraddresses_to_channelidentifiers = [''B'' \<mapsto> [7, 8, 9]]\<rparr>
   \<and> get_contractreceivechannelbatchunlock_data_from_event node_A empty_history
         foreign_unlock_event = Inr None"
proof -
  let ?tns = "\<lparr>partneraddresses_to_channelidentifiers = [''B'' \<mapsto> [7, 8, 9::int]]\<rparr>"
  have h1: "our_address node_A \<noteq> participant1 (args (event_data foreign_new_event))
     \<and> our_address node_A \<noteq> participant2 (args (event_data foreign_new_event))"
    by (simp add: node_A_def foreign_new_event_def)
  have h2: "receiver (args (event_data foreign_unlock_event)) \<noteq> our_address node_A
       \<and> sender (args (event_data foreign_unlock_event)) \<noteq> our_address node_A
       \<and> get_token_network_by_address node_A (originating_contract foreign_unlock_event)
           = Some ?tns"
    by (simp add: node_A_def foreign_unlock_event_def get_token_network_by_address_def)
  from not_participant_no_result
         [of node_A foreign_new_event pruned_chain 100 foreign_unlock_event ?tns empty_history]
       h1 h2
  have new: "get_contractreceivechannelnew_data_from_event node_A pruned_chain
               foreign_new_event 100 = (Inr None, pruned_chain)"
    and unlock: "get_contractreceivechannelbatchunlock_data_from_event node_A empty_history
                   foreign_unlock_event = Inr None"
    by blast+
  have q: "queries (snd (get_contractreceivechannelnew_data_from_event node_A pruned_chain
                     foreign_new_event 100)) = []"
    unfolding new by (simp add: pruned_chain_def)
  have f: "fst (get_contractreceivechannelnew_data_from_event node_A pruned_chain
                  foreign_new_event 100) = Inr None"
    unfolding new by simp
  from h1 h2 f q unlock show ?thesis by blast
qed

text \<open>
  The claim as the specification states it fails for the ChannelBatchUnlock resolver:
  for an unlock between \<open>C\<close> and \<open>D\<close> in a token network node \<open>A\<close> does not know, the
  resolver raises an assertion error.
\<close>

theorem not_participant_no_result_counterexample:
  "receiver (args (event_data foreign_network_unlock_event)) \<noteq> our_address node_A
   \<and> sender (args (event_data foreign_network_unlock_event)) \<noteq> our_address node_A
   \<and> get_contractreceivechannelbatchunlock_data_from_event node_A empty_history
         foreign_network_unlock_event = Inl (AssertionError [])"
  by (simp add: get_contractreceivechannelbatchunlock_data_from_event_def
      get_token_network_by_address_def node_A_def foreign_network_unlock_event_def)

subsection \<open>Claim C8\<close>

text \<open>
  C8. The ChannelClosed and the UpdateTransfer resolver take the local chain state and
  the event only, so neither can query the chain. When the local state has no channel
  for the canonical identifier derived from the event, both return \<open>None\<close>; when it has
  one, ChannelClosed returns the canonical identifier of that channel state and
  UpdateTransfer returns the channel state itself.
\<close>

theorem identity_resolvers:
  "(get_channelstate_by_canonical_identifier chain_state
      (derived_canonical_identifier chain_state ev) = None
     \<longrightarrow> get_contractreceivechannelclosed_data_from_event chain_state ev = None
         \<and> get_contractreceiveupdatetransfer_data_from_event chain_state ev = None)
   \<and> (get_channelstate_by_canonical_identifier chain_state
        (derived_canonical_identifier chain_state ev) = Some cs
     \<longrightarrow> get_contractreceivechannelclosed_data_from_event chain_state ev
           = Some (NettingChannelState.canonical_identifier cs)
         \<and> get_contractreceiveupdatetransfer_data_from_event chain_state ev = Some cs)"
  by (simp add: get_contractreceivechannelclosed_data_from_event_def
      get_contractreceiveupdatetransfer_data_from_event_def derived_canonical_identifier_def
      Let_def)

text \<open>
  The witness: node \<open>A\<close> has no channel 8 in \<open>TN1\<close>, and has channel 7.
\<close>

theorem identity_resolvers_witness:
  "get_channelstate_by_canonical_identifier node_A
      (derived_canonical_identifier node_A unknown_channel_event) = None
   \<and> get_contractreceivechannelclosed_data_from_event node_A unknown_channel_event = None
   \<and> get_contractreceiveupdatetransfer_data_from_event node_A unknown_channel_event = None
   \<and> get_channelstate_by_canonical_identifier node_A
        (derived_canonical_identifier node_A settled_event) = Some channel7
   \<and> get_contractreceivechannelclosed_data_from_event node_A settled_event
       = Some \<lparr>chain_identifier = 1, token_network_address = ''TN1'', channel_identifier = 7\<rparr>
   \<and> get_contractreceiveupdatetransfer_data_from_event node_A settled_event = Some channel7"
proof -
  have h1: "get_channelstate_by_canonical_identifier node_A
      (derived_canonical_identifier node_A unknown_channel_event) = None"
    by (simp add: get_channelstate_by_canonical_identifier_def derived_canonical_identifier_def
        node_A_def unknown_channel_event_def)
  have h2: "get_channelstate_by_canonical_identifier node_A
        (derived_canonical_identifier node_A settled_event) = Some channel7"
    by (simp add: get_channelstate_by_canonical_identifier_def derived_canonical_identifier_def
        node_A_def settled_event_def)
  have c: "NettingChannelState.canonical_identifier channel7
             = \<lparr>chain_identifier = 1, token_network_address = ''TN1'', channel_identifier = 7\<rparr>"
    by (simp add: channel7_def)
  from identity_resolvers [of node_A unknown_channel_event channel7] h1
       identity_resolvers [of node_A settled_event channel7] h2 c
  show ?thesis by simp
qed

subsection \<open>Claim C9\<close>

text \<open>
  C9. The ChannelBatchUnlock resolver asserts that the originating token network is
  known locally before it looks at the participants: when it is not known, the call
  fails with an assertion error whoever the sender and the receiver are, so a call that
  returns \<open>None\<close> has found the token network in the local state.
\<close>

theorem batchunlock_asserts_token_network:
  "(get_token_network_by_address chain_state (originating_contract uev) = None
     \<longrightarrow> get_contractreceivechannelbatchunlock_data_from_event chain_state storage uev
           = Inl (AssertionError []))
   \<and> (get_contractreceivechannelbatchunlock_data_from_event chain_state storage uev = Inr None
     \<longrightarrow> get_token_network_by_address chain_state (originating_contract uev) \<noteq> None)"
proof (cases "get_token_network_by_address chain_state (originating_contract uev)")
  case None
  then show ?thesis
    by (simp add: get_contractreceivechannelbatchunlock_data_from_event_def Let_def)
next
  case (Some tns)
  then show ?thesis by simp
qed

text \<open>
  The witness: node \<open>A\<close> does not know \<open>TN2\<close> and fails on the unlock between \<open>C\<close> and
  \<open>D\<close> there; it knows \<open>TN1\<close> and returns \<open>None\<close> for the unlock between \<open>C\<close> and \<open>D\<close>
  there.
\<close>

theorem batchunlock_asserts_token_network_witness:
  "get_token_network_by_address node_A (originating_contract foreign_network_unlock_event) = None
   \<and> receiver (args (event_data foreign_network_unlock_event)) \<noteq> our_address node_A
   \<and> sender (args (event_data foreign_network_unlock_event)) \<noteq> our_address node_A
   \<and> get_contractreceivechannelbatchunlock_data_from_event node_A empty_history
         foreign_network_unlock_event = Inl (AssertionError [])
   \<and> get_contractreceivechannelbatchunlock_data_from_event node_A empty_history
         foreign_unlock_event = Inr None
   \<and> get_token_network_by_address node_A (originating_contract foreign_unlock_event) \<noteq> None"
proof -
  have h1: "get_token_network_by_address node_A
              (originating_contract foreign_network_unlock_event) = None"
    by (simp add: get_token_network_by_address_def node_A_def foreign_network_unlock_event_def)
  have h2: "get_contractreceivechannelbatchunlock_data_from_event node_A empty_history
              foreign_unlock_event = Inr None"
    by (simp add: get_contractreceivechannelbatchunlock_data_from_event_def
        get_token_network_by_address_def node_A_def foreign_unlock_event_def)
  have h3: "receiver (args (event_data foreign_network_unlock_event)) \<noteq> our_address node_A
     \<and> sender (args (event_data foreign_network_unlock_event)) \<noteq> our_address node_A"
    by (simp add: node_A_def foreign_network_unlock_event_def)
  from batchunlock_asserts_token_network [of node_A foreign_network_unlock_event empty_history]
       batchunlock_asserts_token_network [of node_A foreign_unlock_event empty_history]
       h1 h2 h3
  show ?thesis by blast
qed

end
